theory Spec2Isabelle
  imports Main "HOL-Library.AList"
begin

section \<open>Ports and connections of rtctree (ports.py)\<close>

text \<open>
  A shallow embedding of \<^verbatim>\<open>rtctree/ports.py\<close>. Port wrappers that the caller shares
  (the port a method is called on, the destinations of a connect) live in a store indexed
  by address; the remote framework is a state of an arbitrary type with its operations
  given as a record of functions; every remote call is appended to a log, so that
  "no remote call" and "one fetch" are statements about the log. Exceptions are values
  of the type \<open>error\<close>, and every function returns the world it leaves behind also when
  it raises. The re-entrant locks are not modelled: one thread runs at a time.
\<close>

subsection \<open>Python strings\<close>

text \<open>
  A string is a Python 3 \<^verbatim>\<open>str\<close> whose code points are below 256, a \<open>char\<close> being
  one code point. \<^verbatim>\<open>str.strip()\<close> removes the characters for which
  \<^verbatim>\<open>str.isspace()\<close> holds: below 256 these are 0x09 to 0x0D, 0x1C to 0x1F, 0x20, 0x85
  and 0xA0. \<^verbatim>\<open>str.lower()\<close> maps the upper-case letters to their lower-case ones:
  below 256 these are A to Z and 0xC0 to 0xDE without 0xD7, each 32 below its lower-case
  letter.
\<close>

definition is_space :: "char \<Rightarrow> bool" where
  "is_space c =
     (c \<in> set [CHR 0x09, CHR 0x0A, CHR 0x0B, CHR 0x0C, CHR 0x0D,
                CHR 0x1C, CHR 0x1D, CHR 0x1E, CHR 0x1F, CHR '' '', CHR 0x85, CHR 0xA0])"

definition strip :: "string \<Rightarrow> string" where
  "strip s = rev (dropWhile is_space (rev (dropWhile is_space s)))"

definition is_upper :: "char \<Rightarrow> bool" where
  "is_upper c =
     (let n = (of_char c :: nat) in
      (65 \<le> n \<and> n \<le> 90) \<or> (192 \<le> n \<and> n \<le> 222 \<and> n \<noteq> 215))"

definition lower_char :: "char \<Rightarrow> char" where
  "lower_char c = (if is_upper c then char_of ((of_char c :: nat) + 32) else c)"

definition lower :: "string \<Rightarrow> string" where
  "lower s = map lower_char s"

text \<open>\<^verbatim>\<open>s.split(sep)\<close> for a one-character separator: never the empty list.\<close>

fun split :: "char \<Rightarrow> string \<Rightarrow> string list" where
  "split sep [] = [[]]"
| "split sep (c # cs) =
     (if c = sep then [] # split sep cs
      else (case split sep cs of
              [] \<Rightarrow> [[c]]
            | w # ws \<Rightarrow> (c # w) # ws))"

fun startswith :: "string \<Rightarrow> string \<Rightarrow> bool" where
  "startswith s [] = True"
| "startswith [] (p # ps) = False"
| "startswith (c # cs) (p # ps) = (c = p \<and> startswith cs ps)"

text \<open>\<^verbatim>\<open>sub in s\<close> on strings: \<open>sub\<close> occurs in \<open>s\<close> as a contiguous substring.\<close>

fun str_contains :: "string \<Rightarrow> string \<Rightarrow> bool" where
  "str_contains [] sub = (sub = [])"
| "str_contains (c # cs) sub = (startswith (c # cs) sub \<or> str_contains cs sub)"

text \<open>\<^verbatim>\<open>sep.join(xs)\<close>.\<close>

fun join :: "string \<Rightarrow> string list \<Rightarrow> string" where
  "join sep [] = []"
| "join sep [x] = x"
| "join sep (x # y # ys) = x @ sep @ join sep (y # ys)"

subsection \<open>The remote framework's data (module RTC) and the tree's nodes\<close>

text \<open>A CORBA object reference; \<^verbatim>\<open>a._is_equivalent(b)\<close> is equality of references.\<close>

type_synonym ref = nat

text \<open>Modelled from the spec: \<^verbatim>\<open>RTC.ReturnCode_t\<close> of the framework's interface
  definition, which is not part of the module; \<^verbatim>\<open>RTC.RTC_OK\<close> is the success status.\<close>

datatype return_code =
  RTC_OK | RTC_ERROR | BAD_PARAMETER | UNSUPPORTED | OUT_OF_RESOURCES | PRECONDITION_NOT_MET

datatype rtc_polarity = RTC_PROVIDED | RTC_REQUIRED

type_synonym nvlist = "(string \<times> string) list"

type_synonym pydict = "(string \<times> string) list"

record port_interface_profile =
  pip_instance_name :: string
  pip_type_name :: string
  pip_polarity :: rtc_polarity

record port_profile =
  pp_name :: string
  pp_interfaces :: "port_interface_profile list"
  pp_properties :: nvlist

record connector_profile =
  cp_name :: string
  cp_connector_id :: string
  cp_ports :: "ref list"
  cp_properties :: nvlist

text \<open>A component node of the tree, with the two attributes the module reads.\<close>

record node =
  instance_name :: string
  full_path_str :: string

text \<open>Modelled from the spec: \<^verbatim>\<open>rtctree.utils.nvlist_to_dict\<close> and
  \<^verbatim>\<open>dict_to_nvlist\<close>, which are not part of the module: the flat list of name/value
  pairs to and from an ordered key-to-value mapping. A dictionary is an association list
  in insertion order; a repeated name overwrites the value at the key's first position.\<close>

definition nvlist_to_dict :: "nvlist \<Rightarrow> pydict" where
  "nvlist_to_dict nv = fold (\<lambda>(k, v) d. AList.update k v d) nv []"

definition dict_to_nvlist :: "pydict \<Rightarrow> nvlist" where
  "dict_to_nvlist d = d"

text \<open>\<^verbatim>\<open>k in d\<close>, and \<^verbatim>\<open>d[k]\<close> is \<open>map_of d k\<close>, \<open>None\<close> standing for KeyError.\<close>

definition dict_has :: "pydict \<Rightarrow> string \<Rightarrow> bool" where
  "dict_has d k = (map_of d k \<noteq> None)"

text \<open>The log of remote calls; a connect is logged with the profile sent and the status
  the framework returned.\<close>

datatype remote_call =
  Call_get_port_profile ref
| Call_get_connector_profiles ref
| Call_connect ref connector_profile return_code
| Call_disconnect ref string

text \<open>The collaborators: the remote framework over its state \<open>'r\<close>, and the tree
  (\<^verbatim>\<open>root.iterate(f, filter=['is_component'])\<close> applies \<open>f\<close> to the component nodes
  of the tree that holds the given node, \<^verbatim>\<open>node.get_port_by_ref(p)\<close> is truthy when
  the node exposes the port).\<close>

record 'r framework =
  get_port_profile :: "'r \<Rightarrow> ref \<Rightarrow> port_profile"
  get_connector_profiles :: "'r \<Rightarrow> ref \<Rightarrow> connector_profile list"
  remote_connect :: "'r \<Rightarrow> ref \<Rightarrow> connector_profile \<Rightarrow> (return_code \<times> connector_profile) \<times> 'r"
  remote_disconnect :: "'r \<Rightarrow> ref \<Rightarrow> string \<Rightarrow> return_code \<times> 'r"
  iterate_components :: "node \<Rightarrow> node list"
  get_port_by_ref :: "node \<Rightarrow> ref \<Rightarrow> bool"

subsection \<open>The module's objects\<close>

datatype error =
  KeyError
| WrongPortTypeError
| IncompatibleDataPortConnectionPropsError
| FailedToConnectError return_code
| MismatchedInterfacesError
| MismatchedPolarityError
| NotConnectedError
| UnknownConnectionOwnerError

datatype port_class = Port | DataInPort | DataOutPort | CorbaPort

text \<open>\<^verbatim>\<open>SvcInterface\<close>, with \<^verbatim>\<open>PROVIDED = 1\<close> and \<^verbatim>\<open>REQUIRED = 2\<close>.\<close>

record svc_interface =
  si_obj :: port_interface_profile
  si_instance_name :: string
  si_type_name :: string
  si_polarity :: int

definition PROVIDED :: int where "PROVIDED = 1"
definition REQUIRED :: int where "REQUIRED = 2"

definition SvcInterface :: "port_interface_profile \<Rightarrow> svc_interface" where
  "SvcInterface intf_obj =
     \<lparr> si_obj = intf_obj,
       si_instance_name = pip_instance_name intf_obj,
       si_type_name = pip_type_name intf_obj,
       si_polarity = (if pip_polarity intf_obj = RTC_PROVIDED then PROVIDED else REQUIRED) \<rparr>"

text \<open>
  A port and a connection refer to each other: a port caches its connections, a
  connection caches the ports of its endpoints (fresh wrappers made by \<open>parse_port\<close>).
  A connection reads of its owner only whether there is one and the owner's own owner,
  which is fixed when the owner is built, so \<open>c_owner\<close> keeps just that: \<open>None\<close> for no
  owner, \<open>Some n\<close> for an owner port whose owner is \<open>n\<close>.
  The caches \<open>p_connections\<close>, \<open>p_interfaces\<close> and \<open>c_ports\<close> are \<open>None\<close> for Python's
  \<^verbatim>\<open>None\<close>; \<open>p_interfaces\<close> exists on a CorbaPort only.
\<close>

datatype port = PortObj
  (p_class: port_class)
  (p_obj: ref)
  (p_connections: "connection list option")
  (p_owner: "node option")
  (p_name: string)
  (p_properties: pydict)
  (p_interfaces: "svc_interface list option")
and connection = ConnObj
  (c_obj: connector_profile)
  (c_owner: "node option option")
  (c_name: string)
  (c_id: string)
  (c_ports: "(string \<times> port option) list option")
  (c_properties: pydict)

fun set_connections :: "connection list option \<Rightarrow> port \<Rightarrow> port" where
  "set_connections v (PortObj k r cs ow n ps is) = PortObj k r v ow n ps is"

fun set_interfaces :: "svc_interface list option \<Rightarrow> port \<Rightarrow> port" where
  "set_interfaces v (PortObj k r cs ow n ps is) = PortObj k r cs ow n ps v"

fun set_name_properties :: "string \<Rightarrow> pydict \<Rightarrow> port \<Rightarrow> port" where
  "set_name_properties n' ps' (PortObj k r cs ow n ps is) = PortObj k r cs ow n' ps' is"

fun set_ports :: "(string \<times> port option) list option \<Rightarrow> connection \<Rightarrow> connection" where
  "set_ports v (ConnObj ob ow n i ps pr) = ConnObj ob ow n i v pr"

text \<open>\<^verbatim>\<open>self.__class__.__name__\<close>.\<close>

fun class_name :: "port_class \<Rightarrow> string" where
  "class_name Port = ''Port''"
| "class_name DataInPort = ''DataInPort''"
| "class_name DataOutPort = ''DataOutPort''"
| "class_name CorbaPort = ''CorbaPort''"

definition porttype :: "port \<Rightarrow> string" where
  "porttype p = class_name (p_class p)"

record 'r world =
  remote :: 'r
  heap :: "nat \<Rightarrow> port"
  calls :: "remote_call list"

definition log_call :: "remote_call \<Rightarrow> 'r world \<Rightarrow> 'r world" where
  "log_call c w = w\<lparr> calls := calls w @ [c] \<rparr>"

text \<open>\<^verbatim>\<open>obj.get_port_profile()\<close>: one remote call.\<close>

definition fetch_port_profile :: "'r framework \<Rightarrow> ref \<Rightarrow> 'r world \<Rightarrow> port_profile \<times> 'r world" where
  "fetch_port_profile fw r w =
     (get_port_profile fw (remote w) r, log_call (Call_get_port_profile r) w)"

definition fetch_connector_profiles ::
  "'r framework \<Rightarrow> ref \<Rightarrow> 'r world \<Rightarrow> connector_profile list \<times> 'r world" where
  "fetch_connector_profiles fw r w =
     (get_connector_profiles fw (remote w) r, log_call (Call_get_connector_profiles r) w)"

subsection \<open>Building ports: \<open>Port._parse\<close>, the constructors and \<open>parse_port\<close>\<close>

text \<open>The name and the properties that \<^verbatim>\<open>_parse\<close> stores, from a fetched profile.\<close>

definition parsed_name :: "node option \<Rightarrow> port_profile \<Rightarrow> string" where
  "parsed_name owner profile =
     (case owner of
        None \<Rightarrow> pp_name profile
      | Some ow \<Rightarrow>
          (let prefix = instance_name ow @ ''.'' in
           if startswith (pp_name profile) prefix
           then drop (length prefix) (pp_name profile)
           else pp_name profile))"

definition Port_parse :: "'r framework \<Rightarrow> port \<Rightarrow> 'r world \<Rightarrow> port \<times> 'r world" where
  "Port_parse fw p w =
     (let (profile, w1) = fetch_port_profile fw (p_obj p) w in
      (set_name_properties (parsed_name (p_owner p) profile)
         (nvlist_to_dict (pp_properties profile)) p, w1))"

text \<open>The constructors of all four classes: \<^verbatim>\<open>_connections = None\<close>, then
  \<^verbatim>\<open>_parse()\<close>; CorbaPort then sets \<^verbatim>\<open>_interfaces = None\<close>.\<close>

definition Port_init ::
  "'r framework \<Rightarrow> port_class \<Rightarrow> ref \<Rightarrow> node option \<Rightarrow> 'r world \<Rightarrow> port \<times> 'r world" where
  "Port_init fw k port_obj owner w = Port_parse fw (PortObj k port_obj None owner [] [] None) w"

definition parse_port ::
  "'r framework \<Rightarrow> ref \<Rightarrow> node option \<Rightarrow> 'r world \<Rightarrow> (error + port) \<times> 'r world" where
  "parse_port fw port_obj owner w =
     (let (profile, w1) = fetch_port_profile fw port_obj w;
          props = nvlist_to_dict (pp_properties profile)
      in case map_of props ''port.port_type'' of
           None \<Rightarrow> (Inl KeyError, w1)
         | Some t \<Rightarrow>
             (let (p, w2) =
                (if t = ''DataInPort'' then Port_init fw DataInPort port_obj owner w1
                 else if t = ''DataOutPort'' then Port_init fw DataOutPort port_obj owner w1
                 else if t = ''CorbaPort'' then Port_init fw CorbaPort port_obj owner w1
                 else Port_init fw Port port_obj owner w1)
              in (Inr p, w2)))"

subsection \<open>The connection cache of a port\<close>

definition upd_port :: "nat \<Rightarrow> (port \<Rightarrow> port) \<Rightarrow> 'r world \<Rightarrow> 'r world" where
  "upd_port a f w = w\<lparr> heap := (heap w)(a := f (heap w a)) \<rparr>"

text \<open>\<^verbatim>\<open>Connection(cp, owner)\<close>: the constructor runs \<^verbatim>\<open>Connection._parse\<close>.\<close>

definition Connection_init :: "connector_profile \<Rightarrow> node option option \<Rightarrow> connection" where
  "Connection_init cp owner =
     ConnObj cp owner (cp_name cp) (cp_connector_id cp) None (nvlist_to_dict (cp_properties cp))"

text \<open>Python's \<^verbatim>\<open>not x\<close> on a cache field: true for \<^verbatim>\<open>None\<close> and for the empty list.\<close>

definition py_not :: "'a list option \<Rightarrow> bool" where
  "py_not c = (case c of None \<Rightarrow> True | Some xs \<Rightarrow> xs = [])"

definition cached :: "'a list option \<Rightarrow> 'a list" where
  "cached c = (case c of None \<Rightarrow> [] | Some xs \<Rightarrow> xs)"

text \<open>The property \<^verbatim>\<open>Port.connections\<close> of the port at address \<open>a\<close>.\<close>

definition connections :: "'r framework \<Rightarrow> nat \<Rightarrow> 'r world \<Rightarrow> connection list \<times> 'r world" where
  "connections fw a w =
     (if py_not (p_connections (heap w a)) then
        (let (cps, w1) = fetch_connector_profiles fw (p_obj (heap w a)) w;
             cs = map (\<lambda>cp. Connection_init cp (Some (p_owner (heap w a)))) cps
         in (cs, upd_port a (set_connections (Some cs)) w1))
      else (cached (p_connections (heap w a)), w))"

definition reparse_connections :: "nat \<Rightarrow> 'r world \<Rightarrow> 'r world" where
  "reparse_connections a w = upd_port a (set_connections None) w"

definition reparse :: "'r framework \<Rightarrow> nat \<Rightarrow> 'r world \<Rightarrow> 'r world" where
  "reparse fw a w =
     (let (p, w1) = Port_parse fw (heap w a) w in
      reparse_connections a (upd_port a (\<lambda>_. p) w1))"

definition is_connected :: "'r framework \<Rightarrow> nat \<Rightarrow> 'r world \<Rightarrow> bool \<times> 'r world" where
  "is_connected fw a w = (let (cs, w1) = connections fw a w in (cs \<noteq> [], w1))"

subsection \<open>\<open>Port.connect\<close>\<close>

text \<open>The test of one requested value against one port's allowed values:
  \<^verbatim>\<open>props[prop] not in [x.strip() for x in properties[prop].split(',')] and
  'any' not in properties[prop].lower()\<close>, under \<^verbatim>\<open>prop in properties\<close>.\<close>

definition value_rejected :: "string \<Rightarrow> string \<Rightarrow> bool" where
  "value_rejected v allowed =
     (v \<notin> set (map strip (split (CHR '','') allowed)) \<and> \<not> str_contains (lower allowed) ''any'')"

definition prop_conflict :: "pydict \<Rightarrow> string \<Rightarrow> string \<Rightarrow> bool" where
  "prop_conflict properties k v =
     (case map_of properties k of None \<Rightarrow> False | Some allowed \<Rightarrow> value_rejected v allowed)"

fun check_dests :: "port list \<Rightarrow> string \<Rightarrow> string \<Rightarrow> error option" where
  "check_dests [] k v = None"
| "check_dests (d # ds) k v =
     (if prop_conflict (p_properties d) k v then Some IncompatibleDataPortConnectionPropsError
      else check_dests ds k v)"

text \<open>\<^verbatim>\<open>for prop in props\<close>: each key of the dictionary with its value, in order.\<close>

fun check_props :: "port \<Rightarrow> port list \<Rightarrow> pydict \<Rightarrow> error option" where
  "check_props self dests [] = None"
| "check_props self dests ((k, v) # rest) =
     (if prop_conflict (p_properties self) k v then Some IncompatibleDataPortConnectionPropsError
      else (case check_dests dests k v of
              Some e \<Rightarrow> Some e
            | None \<Rightarrow> check_props self dests rest))"

definition default_name :: "port \<Rightarrow> port list \<Rightarrow> string" where
  "default_name self dests = p_name self @ join ''_'' (map p_name dests)"

definition connect_profile ::
  "port \<Rightarrow> port list \<Rightarrow> string option \<Rightarrow> string \<Rightarrow> pydict \<Rightarrow> connector_profile" where
  "connect_profile self dests name ident props =
     \<lparr> cp_name = (case name of
                    None \<Rightarrow> default_name self dests
                  | Some n \<Rightarrow> if n = [] then default_name self dests else n),
       cp_connector_id = ident,
       cp_ports = p_obj self # map p_obj dests,
       cp_properties = dict_to_nvlist props \<rparr>"

text \<open>The block under \<^verbatim>\<open>if self.porttype == 'DataInPort' or self.porttype ==
  'DataOutPort'\<close>.\<close>

definition negotiation_check :: "port \<Rightarrow> port list \<Rightarrow> pydict \<Rightarrow> error option" where
  "negotiation_check self dests props =
     (if porttype self = ''DataInPort'' \<or> porttype self = ''DataOutPort''
      then check_props self dests props else None)"

definition Port_connect ::
  "'r framework \<Rightarrow> nat \<Rightarrow> nat list \<Rightarrow> string option \<Rightarrow> string \<Rightarrow> pydict \<Rightarrow> 'r world
   \<Rightarrow> (error + unit) \<times> 'r world" where
  "Port_connect fw a ds name ident props w =
     (let self = heap w a; dests = map (heap w) ds in
      case negotiation_check self dests props of
        Some e \<Rightarrow> (Inl e, w)
      | None \<Rightarrow>
          (let profile = connect_profile self dests name ident props;
               ((return_code, profile'), r') = remote_connect fw (remote w) (p_obj self) profile;
               w1 = log_call (Call_connect (p_obj self) profile return_code) (w\<lparr> remote := r' \<rparr>)
           in if return_code \<noteq> RTC_OK then (Inl (FailedToConnectError return_code), w1)
              else (Inr (), fold reparse_connections ds (reparse_connections a w1))))"

subsection \<open>\<open>DataPort.connect\<close>\<close>

text \<open>\<^verbatim>\<open>if k not in d: d[k] = v\<close>.\<close>

definition set_default :: "string \<Rightarrow> string \<Rightarrow> pydict \<Rightarrow> pydict" where
  "set_default k v d = (if dict_has d k then d else AList.update k v d)"

definition DataPort_connect ::
  "'r framework \<Rightarrow> nat \<Rightarrow> nat list \<Rightarrow> string option \<Rightarrow> string \<Rightarrow> pydict \<Rightarrow> 'r world
   \<Rightarrow> (error + unit) \<times> 'r world" where
  "DataPort_connect fw a ds name ident props w =
     (let self = heap w a;
          ptypes = map (\<lambda>d. porttype (heap w d)) ds
      in if porttype self = ''DataInPort'' \<and> ''DataOutPort'' \<notin> set ptypes
         then (Inl WrongPortTypeError, w)
         else if porttype self = ''DataOutPort'' \<and> ''DataInPort'' \<notin> set ptypes
         then (Inl WrongPortTypeError, w)
         else
           (let p1 = set_default ''dataport.dataflow_type'' ''push'' props;
                p2 = set_default ''dataport.interface_type'' ''corba_cdr'' p1;
                p3 = set_default ''dataport.subscription_type'' ''new'' p2
            in if dict_has p3 ''dataport.data_type''
               then Port_connect fw a ds name ident p3 w
               else (case map_of (p_properties self) ''dataport.data_type'' of
                       None \<Rightarrow> (Inl KeyError, w)
                     | Some t \<Rightarrow>
                         Port_connect fw a ds name ident
                           (AList.update ''dataport.data_type'' t p3) w)))"

subsection \<open>\<open>CorbaPort\<close>: the interface cache and \<open>connect\<close>\<close>

text \<open>The property \<^verbatim>\<open>CorbaPort.interfaces\<close> of the port at address \<open>a\<close>.\<close>

definition interfaces :: "'r framework \<Rightarrow> nat \<Rightarrow> 'r world \<Rightarrow> svc_interface list \<times> 'r world" where
  "interfaces fw a w =
     (if py_not (p_interfaces (heap w a)) then
        (let (profile, w1) = fetch_port_profile fw (p_obj (heap w a)) w;
             is = map SvcInterface (pp_interfaces profile)
         in (is, upd_port a (set_interfaces (Some is)) w1))
      else (cached (p_interfaces (heap w a)), w))"

definition get_interface_by_instance_name ::
  "'r framework \<Rightarrow> nat \<Rightarrow> string \<Rightarrow> 'r world \<Rightarrow> svc_interface option \<times> 'r world" where
  "get_interface_by_instance_name fw a n w =
     (let (is, w1) = interfaces fw a w in
      (find (\<lambda>intf. si_instance_name intf = n) is, w1))"

text \<open>\<^verbatim>\<open>for d in dests: if not d.porttype == 'CorbaPort': raise WrongPortTypeError\<close>.\<close>

fun check_corba_dests :: "port list \<Rightarrow> error option" where
  "check_corba_dests [] = None"
| "check_corba_dests (d # ds) =
     (if \<not> porttype d = ''CorbaPort'' then Some WrongPortTypeError else check_corba_dests ds)"

text \<open>\<^verbatim>\<open>for d in dests: if not d.interfaces: raise MismatchedInterfacesError\<close> when
  \<open>want\<close> is true, and the loop of the \<^verbatim>\<open>else\<close> branch
  (\<^verbatim>\<open>if d.interfaces: raise\<close>) when it is false.\<close>

fun check_dest_interfaces ::
  "'r framework \<Rightarrow> bool \<Rightarrow> nat list \<Rightarrow> 'r world \<Rightarrow> error option \<times> 'r world" where
  "check_dest_interfaces fw want [] w = (None, w)"
| "check_dest_interfaces fw want (d # ds) w =
     (let (is, w1) = interfaces fw d w in
      if (is = []) = want then (Some MismatchedInterfacesError, w1)
      else check_dest_interfaces fw want ds w1)"

text \<open>The inner loop over the destinations, for one interface of this port.\<close>

fun match_dests ::
  "'r framework \<Rightarrow> svc_interface \<Rightarrow> nat list \<Rightarrow> 'r world \<Rightarrow> error option \<times> 'r world" where
  "match_dests fw intf [] w = (None, w)"
| "match_dests fw intf (d # ds) w =
     (let (m, w1) = get_interface_by_instance_name fw d (si_instance_name intf) w in
      case m of
        None \<Rightarrow> (Some MismatchedInterfacesError, w1)
      | Some match \<Rightarrow>
          if si_polarity intf = si_polarity match then (Some MismatchedPolarityError, w1)
          else match_dests fw intf ds w1)"

fun match_interfaces ::
  "'r framework \<Rightarrow> svc_interface list \<Rightarrow> nat list \<Rightarrow> 'r world \<Rightarrow> error option \<times> 'r world" where
  "match_interfaces fw [] ds w = (None, w)"
| "match_interfaces fw (intf # rest) ds w =
     (case match_dests fw intf ds w of
        (Some e, w1) \<Rightarrow> (Some e, w1)
      | (None, w1) \<Rightarrow> match_interfaces fw rest ds w1)"

text \<open>The checks of \<^verbatim>\<open>CorbaPort.connect\<close>, up to the comment "Make the connection".\<close>

definition corba_checks ::
  "'r framework \<Rightarrow> nat \<Rightarrow> nat list \<Rightarrow> 'r world \<Rightarrow> error option \<times> 'r world" where
  "corba_checks fw a ds w =
     (case check_corba_dests (map (heap w) ds) of
        Some e \<Rightarrow> (Some e, w)
      | None \<Rightarrow>
          (let (is, w1) = interfaces fw a w in
           if is \<noteq> [] then
             (case check_dest_interfaces fw True ds w1 of
                (Some e, w2) \<Rightarrow> (Some e, w2)
              | (None, w2) \<Rightarrow>
                  (let (is', w3) = interfaces fw a w2 in match_interfaces fw is' ds w3))
           else check_dest_interfaces fw False ds w1))"

definition CorbaPort_connect ::
  "'r framework \<Rightarrow> nat \<Rightarrow> nat list \<Rightarrow> string option \<Rightarrow> string \<Rightarrow> pydict \<Rightarrow> 'r world
   \<Rightarrow> (error + unit) \<times> 'r world" where
  "CorbaPort_connect fw a ds name ident props w =
     (case corba_checks fw a ds w of
        (Some e, w1) \<Rightarrow> (Inl e, w1)
      | (None, w1) \<Rightarrow>
          Port_connect fw a ds name ident (set_default ''port.port_type'' ''CorbaPort'' props) w1)"

text \<open>\<^verbatim>\<open>port.connect(...)\<close>: the method of the port's class.\<close>

definition connect ::
  "'r framework \<Rightarrow> nat \<Rightarrow> nat list \<Rightarrow> string option \<Rightarrow> string \<Rightarrow> pydict \<Rightarrow> 'r world
   \<Rightarrow> (error + unit) \<times> 'r world" where
  "connect fw a ds name ident props w =
     (case p_class (heap w a) of
        Port \<Rightarrow> Port_connect fw a ds name ident props w
      | DataInPort \<Rightarrow> DataPort_connect fw a ds name ident props w
      | DataOutPort \<Rightarrow> DataPort_connect fw a ds name ident props w
      | CorbaPort \<Rightarrow> CorbaPort_connect fw a ds name ident props w)"

subsection \<open>\<open>Connection\<close>: endpoints, \<open>has_port\<close>, \<open>disconnect\<close>\<close>

type_synonym endpoint = "string \<times> port option"

text \<open>One round of the loop of the property \<^verbatim>\<open>Connection.ports\<close>, for the raw
  reference \<open>p\<close>: the endpoint record to append, or the exception of \<open>parse_port\<close>.\<close>

definition resolve_endpoint ::
  "'r framework \<Rightarrow> node option option \<Rightarrow> ref \<Rightarrow> 'r world \<Rightarrow> (error + endpoint) \<times> 'r world" where
  "resolve_endpoint fw owner p w =
     (case owner of
        Some (Some cnode) \<Rightarrow>
          (let owner_nodes =
                 List.map_filter (\<lambda>n. if get_port_by_ref fw n p then Some n else None)
                   (iterate_components fw cnode)
           in case owner_nodes of
                [] \<Rightarrow> (Inr (''Unknown'', None), w)
              | port_owner # _ \<Rightarrow>
                  (let (profile, w1) = fetch_port_profile fw p w;
                       port_name = parsed_name (Some port_owner) profile
                   in case parse_port fw p (Some cnode) w1 of
                        (Inl e, w2) \<Rightarrow> (Inl e, w2)
                      | (Inr port, w2) \<Rightarrow>
                          (Inr (full_path_str port_owner @ '':'' @ port_name, Some port), w2)))
      | _ \<Rightarrow>
          (let (profile, w1) = fetch_port_profile fw p w in
           case parse_port fw p None w1 of
             (Inl e, w2) \<Rightarrow> (Inl e, w2)
           | (Inr port, w2) \<Rightarrow> (Inr (pp_name profile, Some port), w2)))"

text \<open>The loop \<^verbatim>\<open>for p in self._obj.ports\<close>, appending to \<^verbatim>\<open>self._ports\<close> (here
  \<open>acc\<close>); an exception leaves the list as far as it was built.\<close>

fun resolve_endpoints ::
  "'r framework \<Rightarrow> node option option \<Rightarrow> ref list \<Rightarrow> endpoint list \<Rightarrow> 'r world
   \<Rightarrow> error option \<times> endpoint list \<times> 'r world" where
  "resolve_endpoints fw owner [] acc w = (None, acc, w)"
| "resolve_endpoints fw owner (p # ps) acc w =
     (case resolve_endpoint fw owner p w of
        (Inl e, w1) \<Rightarrow> (Some e, acc, w1)
      | (Inr ep, w1) \<Rightarrow> resolve_endpoints fw owner ps (acc @ [ep]) w1)"

text \<open>The property \<^verbatim>\<open>Connection.ports\<close>: the endpoints (or the exception), the
  connection with its cache as the read leaves it, and the world.\<close>

definition Connection_ports ::
  "'r framework \<Rightarrow> connection \<Rightarrow> 'r world \<Rightarrow> (error + endpoint list) \<times> connection \<times> 'r world" where
  "Connection_ports fw c w =
     (if py_not (c_ports c) then
        (case resolve_endpoints fw (c_owner c) (cp_ports (c_obj c)) [] w of
           (Some e, acc, w1) \<Rightarrow> (Inl e, set_ports (Some acc) c, w1)
         | (None, acc, w1) \<Rightarrow> (Inr acc, set_ports (Some acc) c, w1))
      else (Inr (cached (c_ports c)), c, w))"

text \<open>\<^verbatim>\<open>Connection.has_port\<close>: unresolved endpoints are skipped.\<close>

definition endpoint_is :: "port \<Rightarrow> endpoint \<Rightarrow> bool" where
  "endpoint_is port ep =
     (case snd ep of None \<Rightarrow> False | Some q \<Rightarrow> p_obj port = p_obj q)"

definition has_port ::
  "'r framework \<Rightarrow> connection \<Rightarrow> port \<Rightarrow> 'r world \<Rightarrow> (error + bool) \<times> connection \<times> 'r world" where
  "has_port fw c port w =
     (case Connection_ports fw c w of
        (Inl e, c1, w1) \<Rightarrow> (Inl e, c1, w1)
      | (Inr eps, c1, w1) \<Rightarrow> (Inr (list_ex (endpoint_is port) eps), c1, w1))"

text \<open>The scan of \<^verbatim>\<open>Connection.disconnect\<close>:
  \<^verbatim>\<open>while not p and ii < len(self.ports): p = self.ports[ii][1]; ii += 1\<close>.\<close>

function scan_ports :: "endpoint list \<Rightarrow> port option \<Rightarrow> nat \<Rightarrow> port option" where
  "scan_ports eps p ii =
     (if p = None \<and> ii < length eps then scan_ports eps (snd (eps ! ii)) (ii + 1) else p)"
  by pat_completeness auto
termination
  by (relation "measure (\<lambda>(eps, p, ii). length eps - ii)") auto

text \<open>\<^verbatim>\<open>Connection.disconnect\<close>. The source reads \<^verbatim>\<open>self.ports\<close> again at every
  use; after the first read returned a non-empty list the cache holds that list, so every
  later read returns it and calls nothing (lemma \<open>Connection_ports_hit\<close>): the model
  reads once.\<close>

definition disconnect ::
  "'r framework \<Rightarrow> connection \<Rightarrow> 'r world \<Rightarrow> (error + unit) \<times> connection \<times> 'r world" where
  "disconnect fw c w =
     (case Connection_ports fw c w of
        (Inl e, c1, w1) \<Rightarrow> (Inl e, c1, w1)
      | (Inr eps, c1, w1) \<Rightarrow>
          (case eps of
             [] \<Rightarrow> (Inl NotConnectedError, c1, w1)
           | ep0 # _ \<Rightarrow>
               (case scan_ports eps (snd ep0) 1 of
                  None \<Rightarrow> (Inl UnknownConnectionOwnerError, c1, w1)
                | Some p \<Rightarrow>
                    (let (rc, r') = remote_disconnect fw (remote w1) (p_obj p) (c_id c1) in
                     (Inr (), c1,
                      log_call (Call_disconnect (p_obj p) (c_id c1)) (w1\<lparr> remote := r' \<rparr>))))))"

subsection \<open>Searching a port's connections\<close>

text \<open>The inner loop of \<^verbatim>\<open>get_connections_by_dests\<close>:
  \<^verbatim>\<open>for d in dests: if not c.has_port(d): continue\<close>. The \<^verbatim>\<open>continue\<close> goes on with
  the next \<open>d\<close>, so only an exception leaves the loop.\<close>

fun dests_loop ::
  "'r framework \<Rightarrow> connection \<Rightarrow> port list \<Rightarrow> 'r world \<Rightarrow> error option \<times> connection \<times> 'r world" where
  "dests_loop fw c [] w = (None, c, w)"
| "dests_loop fw c (d # ds) w =
     (case has_port fw c d w of
        (Inl e, c1, w1) \<Rightarrow> (Some e, c1, w1)
      | (Inr b, c1, w1) \<Rightarrow> dests_loop fw c1 ds w1)"

text \<open>The loop over the connections; the second component is the list of connection
  objects as the loop leaves them (their endpoint caches filled).\<close>

fun by_dests_loop ::
  "'r framework \<Rightarrow> port \<Rightarrow> port list \<Rightarrow> connection list \<Rightarrow> 'r world
   \<Rightarrow> (error + connection list) \<times> connection list \<times> 'r world" where
  "by_dests_loop fw self dests [] w = (Inr [], [], w)"
| "by_dests_loop fw self dests (c # cs) w =
     (case has_port fw c self w of
        (Inl e, c1, w1) \<Rightarrow> (Inl e, c1 # cs, w1)
      | (Inr False, c1, w1) \<Rightarrow>
          (case by_dests_loop fw self dests cs w1 of
             (r, cs', w2) \<Rightarrow> (r, c1 # cs', w2))
      | (Inr True, c1, w1) \<Rightarrow>
          (case dests_loop fw c1 dests w1 of
             (Some e, c2, w2) \<Rightarrow> (Inl e, c2 # cs, w2)
           | (None, c2, w2) \<Rightarrow>
               (case by_dests_loop fw self dests cs w2 of
                  (Inl e, cs', w3) \<Rightarrow> (Inl e, c2 # cs', w3)
                | (Inr res, cs', w3) \<Rightarrow> (Inr (c2 # res), c2 # cs', w3))))"

definition get_connections_by_dests ::
  "'r framework \<Rightarrow> nat \<Rightarrow> nat list \<Rightarrow> 'r world \<Rightarrow> (error + connection list) \<times> 'r world" where
  "get_connections_by_dests fw a ds w =
     (let (cs, w1) = connections fw a w in
      case by_dests_loop fw (heap w1 a) (map (heap w1) ds) cs w1 of
        (r, cs', w2) \<Rightarrow> (r, upd_port a (set_connections (Some cs')) w2))"

text \<open>\<^verbatim>\<open>get_connections_by_dest\<close>, the search for one destination:
  \<^verbatim>\<open>if c.has_port(self) and c.has_port(dest): res.append(c)\<close>.\<close>

fun by_dest_loop ::
  "'r framework \<Rightarrow> port \<Rightarrow> port \<Rightarrow> connection list \<Rightarrow> 'r world
   \<Rightarrow> (error + connection list) \<times> connection list \<times> 'r world" where
  "by_dest_loop fw self dest [] w = (Inr [], [], w)"
| "by_dest_loop fw self dest (c # cs) w =
     (case has_port fw c self w of
        (Inl e, c1, w1) \<Rightarrow> (Inl e, c1 # cs, w1)
      | (Inr False, c1, w1) \<Rightarrow>
          (case by_dest_loop fw self dest cs w1 of
             (r, cs', w2) \<Rightarrow> (r, c1 # cs', w2))
      | (Inr True, c1, w1) \<Rightarrow>
          (case has_port fw c1 dest w1 of
             (Inl e, c2, w2) \<Rightarrow> (Inl e, c2 # cs, w2)
           | (Inr b, c2, w2) \<Rightarrow>
               (case by_dest_loop fw self dest cs w2 of
                  (Inl e, cs', w3) \<Rightarrow> (Inl e, c2 # cs', w3)
                | (Inr res, cs', w3) \<Rightarrow>
                    (Inr (if b then c2 # res else res), c2 # cs', w3))))"

definition get_connections_by_dest ::
  "'r framework \<Rightarrow> nat \<Rightarrow> nat \<Rightarrow> 'r world \<Rightarrow> (error + connection list) \<times> 'r world" where
  "get_connections_by_dest fw a d w =
     (let (cs, w1) = connections fw a w in
      case by_dest_loop fw (heap w1 a) (heap w1 d) cs w1 of
        (r, cs', w2) \<Rightarrow> (r, upd_port a (set_connections (Some cs')) w2))"

subsection \<open>Notions used to state the properties\<close>

text \<open>The remote calls made between two worlds.\<close>

definition new_calls :: "'r world \<Rightarrow> 'r world \<Rightarrow> remote_call list" where
  "new_calls w w' = drop (length (calls w)) (calls w')"

fun is_profile_fetch :: "remote_call \<Rightarrow> bool" where
  "is_profile_fetch (Call_get_port_profile r) = True"
| "is_profile_fetch c = False"


text \<open>From \<open>w\<close> to \<open>w1\<close> nothing happened but profile fetches that filled interface
  caches: the remote state is the same, the log grew by \<^verbatim>\<open>get_port_profile\<close> calls
  only, and every port agrees with its old self outside \<open>p_interfaces\<close>.\<close>

definition only_fetches :: "'r world \<Rightarrow> 'r world \<Rightarrow> bool" where
  "only_fetches w w1 =
     (remote w1 = remote w \<and>
      (\<exists>l. calls w1 = calls w @ l \<and> list_all is_profile_fetch l) \<and>
      (\<forall>x. set_interfaces None (heap w1 x) = set_interfaces None (heap w x)))"

text \<open>What a read of \<^verbatim>\<open>interfaces\<close> returns for the port at \<open>x\<close> in the world \<open>w\<close>.\<close>

definition declared :: "'r framework \<Rightarrow> 'r world \<Rightarrow> nat \<Rightarrow> svc_interface list" where
  "declared fw w x = fst (interfaces fw x w)"


text \<open>As \<open>only_fetches\<close>, and every port still declares the same interfaces.\<close>

definition same_decl :: "'r framework \<Rightarrow> 'r world \<Rightarrow> 'r world \<Rightarrow> bool" where
  "same_decl fw w w1 = (only_fetches w w1 \<and> (\<forall>x. declared fw w1 x = declared fw w x))"

text \<open>What \<^verbatim>\<open>d.get_interface_by_instance_name(intf.instance_name)\<close> returns in \<open>w\<close>.\<close>

definition matching :: "'r framework \<Rightarrow> 'r world \<Rightarrow> svc_interface \<Rightarrow> nat \<Rightarrow> svc_interface option" where
  "matching fw w intf d = find (\<lambda>j. si_instance_name j = si_instance_name intf) (declared fw w d)"

text \<open>The destination \<open>d\<close> has an interface of the name of \<open>intf\<close>, of the opposite
  polarity.\<close>

definition pair_ok :: "'r framework \<Rightarrow> 'r world \<Rightarrow> svc_interface \<Rightarrow> nat \<Rightarrow> bool" where
  "pair_ok fw w intf d =
     (case matching fw w intf d of None \<Rightarrow> False | Some m \<Rightarrow> si_polarity intf \<noteq> si_polarity m)"

text \<open>The destination \<open>d\<close> has an interface of the name of \<open>intf\<close>, of the same
  polarity.\<close>

definition same_polarity :: "'r framework \<Rightarrow> 'r world \<Rightarrow> svc_interface \<Rightarrow> nat \<Rightarrow> bool" where
  "same_polarity fw w intf d =
     (case matching fw w intf d of None \<Rightarrow> False | Some m \<Rightarrow> si_polarity intf = si_polarity m)"

subsection \<open>Concrete frameworks and worlds, for evaluating the model\<close>

text \<open>A framework over a remote state that is a version number: the profiles and the
  connector lists may depend on it, every connect is answered with \<open>code\<close>, and the
  tree's component nodes are \<open>nodes\<close>, none of which exposes any port.\<close>

definition example_fw ::
  "return_code \<Rightarrow> (nat \<Rightarrow> ref \<Rightarrow> port_profile) \<Rightarrow> (nat \<Rightarrow> ref \<Rightarrow> connector_profile list)
   \<Rightarrow> node list \<Rightarrow> nat framework" where
  "example_fw code profiles connectors nodes =
     \<lparr> get_port_profile = profiles,
       get_connector_profiles = connectors,
       remote_connect = (\<lambda>v r prof. ((code, prof), v)),
       remote_disconnect = (\<lambda>v r i. (RTC_OK, v)),
       iterate_components = (\<lambda>n. nodes),
       get_port_by_ref = (\<lambda>n r. False) \<rparr>"

text \<open>A port as its constructor leaves it (no owner, empty caches), and a world whose
  store holds the given ports at the addresses 0, 1, ...\<close>

definition example_port :: "port_class \<Rightarrow> ref \<Rightarrow> string \<Rightarrow> pydict \<Rightarrow> port" where
  "example_port k r n ps = PortObj k r None None n ps None"

definition example_world :: "port list \<Rightarrow> nat world" where
  "example_world ps =
     \<lparr> remote = 0,
       heap = (\<lambda>x. if x < length ps then ps ! x else example_port Port 0 [] []),
       calls = [] \<rparr>"

text \<open>A profile with the given name, port type and interfaces.\<close>

definition example_profile :: "string \<Rightarrow> string \<Rightarrow> port_interface_profile list \<Rightarrow> port_profile" where
  "example_profile n t ifs =
     \<lparr> pp_name = n, pp_interfaces = ifs, pp_properties = [(''port.port_type'', t)] \<rparr>"

text \<open>Frameworks that accept and that refuse every connect, over profiles that declare
  nothing and ports that have no connections.\<close>

definition plain_profiles :: "nat \<Rightarrow> ref \<Rightarrow> port_profile" where
  "plain_profiles v r = example_profile ''p'' ''Port'' []"

definition no_connectors :: "nat \<Rightarrow> ref \<Rightarrow> connector_profile list" where
  "no_connectors v r = []"

definition fw_accept :: "nat framework" where
  "fw_accept = example_fw RTC_OK plain_profiles no_connectors []"

definition fw_refuse :: "nat framework" where
  "fw_refuse = example_fw RTC_ERROR plain_profiles no_connectors []"

text \<open>A data-out port at address 0 and a data-in port at address 1, each with one
  connection in its cache.\<close>

definition old_connection :: connection where
  "old_connection =
     Connection_init \<lparr> cp_name = ''old'', cp_connector_id = ''id0'', cp_ports = [10, 11],
                       cp_properties = [] \<rparr> (Some None)"

definition data_world :: "nat world" where
  "data_world = example_world
     [PortObj DataOutPort 10 (Some [old_connection]) None ''out''
        [(''dataport.data_type'', ''TimedLong''), (''dataport.dataflow_type'', ''push, pull'')] None,
      PortObj DataInPort 11 (Some [old_connection]) None ''in''
        [(''dataport.data_type'', ''TimedLong'')] None]"

text \<open>The same two ports as generic ports: the first allows \<open>push\<close> and \<open>pull\<close> as
  data-flow types.\<close>

definition generic_world :: "nat world" where
  "generic_world = example_world
     [PortObj Port 10 None None ''out'' [(''dataport.dataflow_type'', ''push, pull'')] None,
      PortObj Port 11 None None ''in'' [] None]"

text \<open>Two service ports at the addresses 0 and 1, with the references 10 and 11; the
  remote profiles give each one interface named \<open>A\<close>, of polarity \<open>p\<close> for the first port
  and \<open>q\<close> for the second.\<close>

definition svc_profiles :: "rtc_polarity \<Rightarrow> rtc_polarity \<Rightarrow> nat \<Rightarrow> ref \<Rightarrow> port_profile" where
  "svc_profiles p q v r =
     example_profile ''svc'' ''CorbaPort''
       [\<lparr> pip_instance_name = ''A'', pip_type_name = ''T'',
          pip_polarity = (if r = 10 then p else q) \<rparr>]"

definition svc_fw :: "rtc_polarity \<Rightarrow> rtc_polarity \<Rightarrow> nat framework" where
  "svc_fw p q = example_fw RTC_OK (svc_profiles p q) no_connectors []"

definition svc_world :: "nat world" where
  "svc_world = example_world [example_port CorbaPort 10 ''svc0'' [], example_port CorbaPort 11 ''svc1'' []]"

text \<open>A profile that declares no property at all, behind every reference.\<close>

definition bare_profiles :: "nat \<Rightarrow> ref \<Rightarrow> port_profile" where
  "bare_profiles v r = \<lparr> pp_name = ''p'', pp_interfaces = [], pp_properties = [] \<rparr>"

definition fw_bare :: "nat framework" where
  "fw_bare = example_fw RTC_OK bare_profiles no_connectors []"

text \<open>A service port at address 0 that has already read and stored its one interface,
  the remote state having moved on to version 1 since.\<close>

definition versioned_profiles :: "nat \<Rightarrow> ref \<Rightarrow> port_profile" where
  "versioned_profiles v r =
     example_profile ''svc'' ''CorbaPort''
       [\<lparr> pip_instance_name = (if v = 0 then ''A'' else ''B''), pip_type_name = ''T'',
          pip_polarity = RTC_PROVIDED \<rparr>]"

definition fw_versioned :: "nat framework" where
  "fw_versioned = example_fw RTC_OK versioned_profiles no_connectors []"

definition stale_world :: "nat world" where
  "stale_world =
     (snd (interfaces fw_versioned 0 (example_world [example_port CorbaPort 10 ''svc'' []])))
       \<lparr> remote := 1 \<rparr>"

text \<open>The port of the first endpoint that is resolved, if any.\<close>

definition first_resolved :: "endpoint list \<Rightarrow> port option" where
  "first_resolved eps =
     (case find (\<lambda>ep. snd ep \<noteq> None) eps of None \<Rightarrow> None | Some ep \<Rightarrow> snd ep)"

text \<open>A tree with one component node, which exposes the port of reference 11 and no
  other, and connections between the references 10 and 11 that a port of that component
  owns.\<close>

definition tree_node :: node where
  "tree_node = \<lparr> instance_name = ''Comp0'', full_path_str = ''/host/Comp0.rtc'' \<rparr>"

definition exposes_11 :: "node \<Rightarrow> ref \<Rightarrow> bool" where
  "exposes_11 n r = (r = 11)"

text \<open>Its framework moves to the next version at every disconnect.\<close>

definition counting_disconnect :: "nat \<Rightarrow> ref \<Rightarrow> string \<Rightarrow> return_code \<times> nat" where
  "counting_disconnect v r i = (RTC_OK, Suc v)"

definition fw_tree :: "nat framework" where
  "fw_tree = (example_fw RTC_OK plain_profiles no_connectors [tree_node])
               \<lparr> get_port_by_ref := exposes_11, remote_disconnect := counting_disconnect \<rparr>"

definition tree_connection :: "ref list \<Rightarrow> connection" where
  "tree_connection refs =
     Connection_init \<lparr> cp_name = ''conn'', cp_connector_id = ''id0'', cp_ports = refs,
                       cp_properties = [] \<rparr> (Some (Some tree_node))"

text \<open>Three ownerless generic ports with the references 10, 11 and 12; the port of
  reference 10 has one connection, between the references 10 and 11.\<close>

definition linked_connectors :: "nat \<Rightarrow> ref \<Rightarrow> connector_profile list" where
  "linked_connectors v r =
     (if r = 10 then [\<lparr> cp_name = ''link'', cp_connector_id = ''id1'', cp_ports = [10, 11],
                         cp_properties = [] \<rparr>] else [])"

definition fw_linked :: "nat framework" where
  "fw_linked = example_fw RTC_OK plain_profiles linked_connectors []"

definition linked_world :: "nat world" where
  "linked_world = example_world
     [example_port Port 10 ''a'' [], example_port Port 11 ''b'' [], example_port Port 12 ''c'' []]"

text \<open>That connection, as a search leaves it: its endpoints resolved to fresh ports.\<close>

definition linked_connection :: connection where
  "linked_connection =
     ConnObj \<lparr> cp_name = ''link'', cp_connector_id = ''id1'', cp_ports = [10, 11],
               cp_properties = [] \<rparr>
       (Some None) ''link'' ''id1''
       (Some [(''p'', Some (PortObj Port 10 None None ''p'' [(''port.port_type'', ''Port'')] None)),
              (''p'', Some (PortObj Port 11 None None ''p'' [(''port.port_type'', ''Port'')] None))])
       []"

text \<open>The same two service ports over profiles that give the first port provided
  interfaces of the names \<open>xs\<close> and the second of the names \<open>ys\<close>.\<close>

definition named_profiles :: "string list \<Rightarrow> string list \<Rightarrow> nat \<Rightarrow> ref \<Rightarrow> port_profile" where
  "named_profiles xs ys v r =
     example_profile ''svc'' ''CorbaPort''
       (map (\<lambda>n. \<lparr> pip_instance_name = n, pip_type_name = ''T'', pip_polarity = RTC_PROVIDED \<rparr>)
          (if r = 10 then xs else ys))"

definition named_fw :: "string list \<Rightarrow> string list \<Rightarrow> nat framework" where
  "named_fw xs ys = example_fw RTC_OK (named_profiles xs ys) no_connectors []"

text \<open>A connection without owner between the references 10 and 11, over profiles that
  declare a port type for the reference 10 only.\<close>

definition half_profiles :: "nat \<Rightarrow> ref \<Rightarrow> port_profile" where
  "half_profiles v r = (if r = 10 then example_profile ''p'' ''Port'' [] else bare_profiles v r)"

definition fw_half :: "nat framework" where
  "fw_half = example_fw RTC_OK half_profiles no_connectors []"

definition ownerless_connection :: connection where
  "ownerless_connection =
     Connection_init \<lparr> cp_name = ''conn'', cp_connector_id = ''id0'', cp_ports = [10, 11],
                       cp_properties = [] \<rparr> None"

section \<open>Properties\<close>

subsection \<open>Field selectors, the log and the store\<close>

lemma set_connections_sel [simp]:
  "p_connections (set_connections v p) = v"
  "p_class (set_connections v p) = p_class p"
  "p_obj (set_connections v p) = p_obj p"
  "p_owner (set_connections v p) = p_owner p"
  "p_name (set_connections v p) = p_name p"
  "p_properties (set_connections v p) = p_properties p"
  "p_interfaces (set_connections v p) = p_interfaces p"
  by (cases p; simp)+

lemma set_interfaces_sel [simp]:
  "p_interfaces (set_interfaces v p) = v"
  "p_class (set_interfaces v p) = p_class p"
  "p_obj (set_interfaces v p) = p_obj p"
  "p_owner (set_interfaces v p) = p_owner p"
  "p_name (set_interfaces v p) = p_name p"
  "p_properties (set_interfaces v p) = p_properties p"
  "p_connections (set_interfaces v p) = p_connections p"
  by (cases p; simp)+

lemma set_name_properties_sel [simp]:
  "p_name (set_name_properties n ps p) = n"
  "p_properties (set_name_properties n ps p) = ps"
  "p_class (set_name_properties n ps p) = p_class p"
  "p_obj (set_name_properties n ps p) = p_obj p"
  "p_owner (set_name_properties n ps p) = p_owner p"
  "p_connections (set_name_properties n ps p) = p_connections p"
  "p_interfaces (set_name_properties n ps p) = p_interfaces p"
  by (cases p; simp)+

lemma set_ports_sel [simp]:
  "c_ports (set_ports v c) = v"
  "c_obj (set_ports v c) = c_obj c"
  "c_owner (set_ports v c) = c_owner c"
  "c_name (set_ports v c) = c_name c"
  "c_id (set_ports v c) = c_id c"
  "c_properties (set_ports v c) = c_properties c"
  by (cases c; simp)+

lemma set_connections_idem [simp]:
  "set_connections v (set_connections u p) = set_connections v p"
  by (cases p) simp

lemma set_interfaces_connections_commute:
  "set_interfaces v (set_connections u p) = set_connections u (set_interfaces v p)"
  by (cases p) simp

lemma upd_port_simps [simp]:
  "remote (upd_port a f w) = remote w"
  "calls (upd_port a f w) = calls w"
  "heap (upd_port a f w) = (heap w)(a := f (heap w a))"
  by (simp_all add: upd_port_def)

lemma log_call_simps [simp]:
  "remote (log_call c w) = remote w"
  "calls (log_call c w) = calls w @ [c]"
  "heap (log_call c w) = heap w"
  by (simp_all add: log_call_def)

lemma reparse_connections_simps [simp]:
  "remote (reparse_connections a w) = remote w"
  "calls (reparse_connections a w) = calls w"
  "heap (reparse_connections a w) = (heap w)(a := set_connections None (heap w a))"
  by (simp_all add: reparse_connections_def)

lemma fold_reparse_connections:
  "remote (fold reparse_connections ds w) = remote w"
  "calls (fold reparse_connections ds w) = calls w"
  "heap (fold reparse_connections ds w) x =
     (if x \<in> set ds then set_connections None (heap w x) else heap w x)"
  by (induction ds arbitrary: w) auto

lemma new_calls_append [simp]: "calls w' = calls w @ l \<Longrightarrow> new_calls w w' = l"
  by (simp add: new_calls_def)

lemma new_calls_same [simp]: "new_calls w w = []"
  by (simp add: new_calls_def)

lemma check_dests_err: "check_dests ds k v = Some e \<Longrightarrow> e = IncompatibleDataPortConnectionPropsError"
  by (induction ds) (auto split: if_splits)

lemma check_props_err: "check_props s ds props = Some e \<Longrightarrow> e = IncompatibleDataPortConnectionPropsError"
  by (induction props) (auto split: if_splits option.splits dest: check_dests_err)

lemma check_dests_iff:
  "check_dests ds k v \<noteq> None \<longleftrightarrow> (\<exists>d\<in>set ds. prop_conflict (p_properties d) k v)"
  by (induction ds) auto

lemma check_props_iff:
  "check_props s ds props \<noteq> None \<longleftrightarrow>
     (\<exists>kv\<in>set props. prop_conflict (p_properties s) (fst kv) (snd kv)
        \<or> (\<exists>d\<in>set ds. prop_conflict (p_properties d) (fst kv) (snd kv)))"
proof (induction props)
  case Nil
  show ?case by simp
next
  case (Cons kv props)
  obtain k v where kv: "kv = (k, v)" by (cases kv)
  show ?case
  proof (cases "prop_conflict (p_properties s) k v \<or> check_dests ds k v \<noteq> None")
    case True
    then show ?thesis
      using check_dests_iff [of ds k v] by (auto simp: kv)
  next
    case False
    then have "check_props s ds (kv # props) = check_props s ds props"
      by (auto simp: kv)
    then show ?thesis
      using False Cons.IH check_dests_iff [of ds k v] by (simp add: kv)
  qed
qed

lemma negotiation_check_err:
  "negotiation_check s ds props = Some e \<Longrightarrow> e = IncompatibleDataPortConnectionPropsError"
  by (auto simp: negotiation_check_def split: if_splits dest: check_props_err)

lemma Port_connect_rejected:
  "negotiation_check (heap w a) (map (heap w) ds) props = Some e \<Longrightarrow>
   Port_connect fw a ds name ident props w = (Inl IncompatibleDataPortConnectionPropsError, w)"
  by (auto simp: Port_connect_def dest: negotiation_check_err)


lemma only_fetches_refl [simp]: "only_fetches w w"
  by (simp add: only_fetches_def)

lemma only_fetches_trans: "only_fetches w w1 \<Longrightarrow> only_fetches w1 w2 \<Longrightarrow> only_fetches w w2"
  by (auto simp: only_fetches_def)

lemma same_decl_refl [simp]: "same_decl fw w w"
  by (simp add: same_decl_def)

lemma same_decl_trans: "same_decl fw w w1 \<Longrightarrow> same_decl fw w1 w2 \<Longrightarrow> same_decl fw w w2"
  by (auto simp: same_decl_def intro: only_fetches_trans)

lemma set_interfaces_None_eq:
  "set_interfaces None p = set_interfaces None q \<Longrightarrow>
   p_class p = p_class q \<and> p_obj p = p_obj q \<and> p_connections p = p_connections q \<and>
   p_owner p = p_owner q \<and> p_name p = p_name q \<and> p_properties p = p_properties q"
  by (cases p; cases q) simp

lemma set_interfaces_idem [simp]: "set_interfaces v (set_interfaces u p) = set_interfaces v p"
  by (cases p) simp

lemma only_fetches_fields:
  assumes "only_fetches w w1"
  shows "p_class (heap w1 x) = p_class (heap w x)"
    and "p_obj (heap w1 x) = p_obj (heap w x)"
    and "p_connections (heap w1 x) = p_connections (heap w x)"
    and "p_owner (heap w1 x) = p_owner (heap w x)"
    and "p_name (heap w1 x) = p_name (heap w x)"
    and "p_properties (heap w1 x) = p_properties (heap w x)"
    and "remote w1 = remote w"
  using assms set_interfaces_None_eq [of "heap w1 x" "heap w x"]
  by (auto simp: only_fetches_def)

lemma declared_eq:
  "declared fw w x =
     (if py_not (p_interfaces (heap w x))
      then map SvcInterface (pp_interfaces (get_port_profile fw (remote w) (p_obj (heap w x))))
      else cached (p_interfaces (heap w x)))"
  by (simp add: declared_def interfaces_def fetch_port_profile_def Let_def)

lemma interfaces_step:
  assumes "interfaces fw x w = (ifs, w1)"
  shows "ifs = declared fw w x" and "same_decl fw w w1"
proof -
  show "ifs = declared fw w x" using assms by (simp add: declared_def)
  show "same_decl fw w w1"
  proof (cases "py_not (p_interfaces (heap w x))")
    case False
    then have "w1 = w" using assms by (simp add: interfaces_def)
    then show ?thesis by simp
  next
    case True
    define fetched where
      "fetched = map SvcInterface (pp_interfaces (get_port_profile fw (remote w) (p_obj (heap w x))))"
    have w1: "w1 = upd_port x (set_interfaces (Some fetched)) (log_call (Call_get_port_profile (p_obj (heap w x))) w)"
      using assms True by (auto simp: interfaces_def fetch_port_profile_def Let_def fetched_def)
    have "only_fetches w w1"
      by (simp add: only_fetches_def w1)
    moreover have "declared fw w1 y = declared fw w y" for y
      using True by (auto simp: declared_eq w1 py_not_def cached_def fetched_def)
    ultimately show ?thesis by (simp add: same_decl_def)
  qed
qed

lemma same_decl_matching: "same_decl fw w w1 \<Longrightarrow> matching fw w1 intf d = matching fw w intf d"
  by (simp add: same_decl_def matching_def)

lemma same_decl_pair_ok: "same_decl fw w w1 \<Longrightarrow> pair_ok fw w1 intf d = pair_ok fw w intf d"
  by (simp add: pair_ok_def same_decl_matching)

lemma same_decl_same_polarity:
  "same_decl fw w w1 \<Longrightarrow> same_polarity fw w1 intf d = same_polarity fw w intf d"
  by (simp add: same_polarity_def same_decl_matching)

lemma same_decl_declared: "same_decl fw w w1 \<Longrightarrow> declared fw w1 x = declared fw w x"
  by (simp add: same_decl_def)

lemma check_dest_interfaces_spec:
  "check_dest_interfaces fw want ds w = (r, w1) \<Longrightarrow>
   same_decl fw w w1 \<and>
   (r = None \<longleftrightarrow> (\<forall>d\<in>set ds. (declared fw w d = []) \<noteq> want)) \<and>
   (r \<noteq> None \<longrightarrow> r = Some MismatchedInterfacesError)"
proof (induction ds arbitrary: w)
  case Nil
  then show ?case by simp
next
  case (Cons d ds)
  obtain ifs w0 where st: "interfaces fw d w = (ifs, w0)" by (cases "interfaces fw d w")
  note s = interfaces_step [OF st]
  show ?case
  proof (cases "(ifs = []) = want")
    case True
    then show ?thesis using Cons.prems st s by auto
  next
    case False
    then have rec: "check_dest_interfaces fw want ds w0 = (r, w1)"
      using Cons.prems st by simp
    from Cons.IH [OF rec] s False show ?thesis
      by (auto simp: same_decl_declared intro: same_decl_trans)
  qed
qed

lemma get_interface_step:
  assumes "get_interface_by_instance_name fw d (si_instance_name intf) w = (m, w1)"
  shows "m = matching fw w intf d" and "same_decl fw w w1"
proof -
  obtain ifs w0 where st: "interfaces fw d w = (ifs, w0)" by (cases "interfaces fw d w")
  note s = interfaces_step [OF st]
  from assms st have "w1 = w0" and "m = find (\<lambda>j. si_instance_name j = si_instance_name intf) ifs"
    by (simp_all add: get_interface_by_instance_name_def)
  with s show "m = matching fw w intf d" and "same_decl fw w w1"
    by (simp_all add: matching_def)
qed

lemma match_dests_spec:
  "match_dests fw intf ds w = (r, w1) \<Longrightarrow>
   same_decl fw w w1 \<and>
   (r = None \<longleftrightarrow> (\<forall>d\<in>set ds. pair_ok fw w intf d)) \<and>
   (r = Some MismatchedInterfacesError \<longrightarrow> (\<exists>d\<in>set ds. matching fw w intf d = None)) \<and>
   (r = Some MismatchedPolarityError \<longrightarrow> (\<exists>d\<in>set ds. same_polarity fw w intf d)) \<and>
   (r \<noteq> None \<longrightarrow> r = Some MismatchedInterfacesError \<or> r = Some MismatchedPolarityError)"
proof (induction ds arbitrary: w)
  case Nil
  then show ?case by simp
next
  case (Cons d ds)
  obtain m w0 where st: "get_interface_by_instance_name fw d (si_instance_name intf) w = (m, w0)"
    by (cases "get_interface_by_instance_name fw d (si_instance_name intf) w")
  note s = get_interface_step [OF st]
  have mm: "matching fw w intf d = m" using s(1) by simp
  show ?case
  proof (cases m)
    case None
    have "r = Some MismatchedInterfacesError" "w1 = w0"
      using Cons.prems st None by simp_all
    then show ?thesis using s(2) mm None by (auto simp: pair_ok_def)
  next
    case (Some match)
    show ?thesis
    proof (cases "si_polarity intf = si_polarity match")
      case True
      have "r = Some MismatchedPolarityError" "w1 = w0"
        using Cons.prems st Some True by simp_all
      then show ?thesis using s(2) mm Some True
        by (auto simp: pair_ok_def same_polarity_def)
    next
      case False
      then have rec: "match_dests fw intf ds w0 = (r, w1)"
        using Cons.prems st Some by simp
      have ok: "pair_ok fw w intf d" "matching fw w intf d \<noteq> None" "\<not> same_polarity fw w intf d"
        using mm Some False by (simp_all add: pair_ok_def same_polarity_def)
      from Cons.IH [OF rec] s(2) ok show ?thesis
        by (auto simp: same_decl_pair_ok same_decl_matching same_decl_same_polarity
            intro: same_decl_trans)
    qed
  qed
qed

lemma match_interfaces_spec:
  "match_interfaces fw ifs ds w = (r, w1) \<Longrightarrow>
   same_decl fw w w1 \<and>
   (r = None \<longleftrightarrow> (\<forall>i\<in>set ifs. \<forall>d\<in>set ds. pair_ok fw w i d)) \<and>
   (r = Some MismatchedInterfacesError \<longrightarrow> (\<exists>i\<in>set ifs. \<exists>d\<in>set ds. matching fw w i d = None)) \<and>
   (r = Some MismatchedPolarityError \<longrightarrow> (\<exists>i\<in>set ifs. \<exists>d\<in>set ds. same_polarity fw w i d)) \<and>
   (r \<noteq> None \<longrightarrow> r = Some MismatchedInterfacesError \<or> r = Some MismatchedPolarityError)"
proof (induction ifs arbitrary: w)
  case Nil
  then show ?case by simp
next
  case (Cons intf rest)
  obtain r0 w0 where st: "match_dests fw intf ds w = (r0, w0)"
    by (cases "match_dests fw intf ds w")
  note s = match_dests_spec [OF st]
  show ?case
  proof (cases r0)
    case (Some e)
    then have "r = r0" "w1 = w0" using Cons.prems st by simp_all
    then show ?thesis using s Some by auto
  next
    case None
    then have rec: "match_interfaces fw rest ds w0 = (r, w1)"
      using Cons.prems st by simp
    have sd: "same_decl fw w w0" using s by simp
    have ok: "\<forall>d\<in>set ds. pair_ok fw w intf d" using s None by simp
    then have nm: "\<forall>d\<in>set ds. matching fw w intf d \<noteq> None"
      and np: "\<forall>d\<in>set ds. \<not> same_polarity fw w intf d"
      by (auto simp: pair_ok_def same_polarity_def split: option.splits)
    from Cons.IH [OF rec] sd ok nm np show ?thesis
      by (auto simp: same_decl_pair_ok same_decl_matching same_decl_same_polarity
          intro: same_decl_trans)
  qed
qed

lemma porttype_eq [simp]:
  "porttype p = ''CorbaPort'' \<longleftrightarrow> p_class p = CorbaPort"
  "porttype p = ''DataInPort'' \<longleftrightarrow> p_class p = DataInPort"
  "porttype p = ''DataOutPort'' \<longleftrightarrow> p_class p = DataOutPort"
  "porttype p = ''Port'' \<longleftrightarrow> p_class p = Port"
  by (cases "p_class p"; simp add: porttype_def)+

lemma check_corba_dests_eq:
  "check_corba_dests ps =
     (if \<exists>p\<in>set ps. p_class p \<noteq> CorbaPort then Some WrongPortTypeError else None)"
  by (induction ps) auto

lemma corba_checks_wrong:
  "\<exists>d\<in>set ds. p_class (heap w d) \<noteq> CorbaPort \<Longrightarrow>
   corba_checks fw a ds w = (Some WrongPortTypeError, w)"
  by (auto simp: corba_checks_def check_corba_dests_eq)

lemma corba_checks_spec:
  assumes run: "corba_checks fw a ds w = (r, w1)"
    and corba: "\<forall>d\<in>set ds. p_class (heap w d) = CorbaPort"
  shows "same_decl fw w w1"
    and "declared fw w a = [] \<Longrightarrow>
           (r = None \<longleftrightarrow> (\<forall>d\<in>set ds. declared fw w d = [])) \<and>
           (r \<noteq> None \<longrightarrow> r = Some MismatchedInterfacesError)"
    and "declared fw w a \<noteq> [] \<Longrightarrow>
           (r = None \<longleftrightarrow> (\<forall>i\<in>set (declared fw w a). \<forall>d\<in>set ds. pair_ok fw w i d)) \<and>
           (r = Some MismatchedInterfacesError \<longrightarrow>
              (\<exists>i\<in>set (declared fw w a). \<exists>d\<in>set ds. matching fw w i d = None)) \<and>
           (r = Some MismatchedPolarityError \<longrightarrow>
              (\<exists>i\<in>set (declared fw w a). \<exists>d\<in>set ds. same_polarity fw w i d)) \<and>
           (r \<noteq> None \<longrightarrow> r = Some MismatchedInterfacesError \<or> r = Some MismatchedPolarityError)"
proof -
  have c0: "check_corba_dests (map (heap w) ds) = None"
    using corba by (simp add: check_corba_dests_eq)
  obtain ifs wa where st: "interfaces fw a w = (ifs, wa)" by (cases "interfaces fw a w")
  note s = interfaces_step [OF st]
  have all3: "same_decl fw w w1 \<and>
    (declared fw w a = [] \<longrightarrow>
           (r = None \<longleftrightarrow> (\<forall>d\<in>set ds. declared fw w d = [])) \<and>
           (r \<noteq> None \<longrightarrow> r = Some MismatchedInterfacesError)) \<and>
    (declared fw w a \<noteq> [] \<longrightarrow>
           (r = None \<longleftrightarrow> (\<forall>i\<in>set (declared fw w a). \<forall>d\<in>set ds. pair_ok fw w i d)) \<and>
           (r = Some MismatchedInterfacesError \<longrightarrow>
              (\<exists>i\<in>set (declared fw w a). \<exists>d\<in>set ds. matching fw w i d = None)) \<and>
           (r = Some MismatchedPolarityError \<longrightarrow>
              (\<exists>i\<in>set (declared fw w a). \<exists>d\<in>set ds. same_polarity fw w i d)) \<and>
           (r \<noteq> None \<longrightarrow> r = Some MismatchedInterfacesError \<or> r = Some MismatchedPolarityError))"
  proof (cases "ifs = []")
    case True
    then have rec: "check_dest_interfaces fw False ds wa = (r, w1)"
      using run c0 st by (simp add: corba_checks_def)
    from check_dest_interfaces_spec [OF rec] s True show ?thesis
      by (auto simp: same_decl_declared intro: same_decl_trans)
  next
    case False
    obtain r2 w2 where pre: "check_dest_interfaces fw True ds wa = (r2, w2)"
      by (cases "check_dest_interfaces fw True ds wa")
    note p = check_dest_interfaces_spec [OF pre]
    have sd2: "same_decl fw w w2" using s p by (auto intro: same_decl_trans)
    have "declared fw w a \<noteq> []" using False s(1) by simp
    then obtain i0 where i0: "i0 \<in> set (declared fw w a)"
      by (cases "declared fw w a") auto
    show ?thesis
    proof (cases r2)
      case (Some e)
      then have r: "r = Some MismatchedInterfacesError" "w1 = w2"
        using run c0 st False pre p by (auto simp: corba_checks_def)
      from p Some obtain d where d: "d \<in> set ds" "declared fw wa d = []" by auto
      then have "declared fw w d = []" using s(2) by (simp add: same_decl_declared)
      then have nm: "matching fw w i0 d = None" by (simp add: matching_def)
      then have "\<not> pair_ok fw w i0 d" by (simp add: pair_ok_def)
      with r sd2 False s(1) i0 d(1) nm show ?thesis by auto
    next
      case None
      obtain ifs' w3 where st3: "interfaces fw a w2 = (ifs', w3)" by (cases "interfaces fw a w2")
      note s3 = interfaces_step [OF st3]
      have ifs': "ifs' = declared fw w a" using s3(1) sd2 by (simp add: same_decl_declared)
      have sd3: "same_decl fw w w3" using sd2 s3(2) by (rule same_decl_trans)
      have rec: "match_interfaces fw ifs' ds w3 = (r, w1)"
        using run c0 st False pre None st3 by (simp add: corba_checks_def)
      from match_interfaces_spec [OF rec] sd3 ifs' False s(1) show ?thesis
        by (auto simp: same_decl_pair_ok same_decl_matching same_decl_same_polarity
            intro: same_decl_trans)
    qed
  qed
  then show "same_decl fw w w1"
    and "declared fw w a = [] \<Longrightarrow>
           (r = None \<longleftrightarrow> (\<forall>d\<in>set ds. declared fw w d = [])) \<and>
           (r \<noteq> None \<longrightarrow> r = Some MismatchedInterfacesError)"
    and "declared fw w a \<noteq> [] \<Longrightarrow>
           (r = None \<longleftrightarrow> (\<forall>i\<in>set (declared fw w a). \<forall>d\<in>set ds. pair_ok fw w i d)) \<and>
           (r = Some MismatchedInterfacesError \<longrightarrow>
              (\<exists>i\<in>set (declared fw w a). \<exists>d\<in>set ds. matching fw w i d = None)) \<and>
           (r = Some MismatchedPolarityError \<longrightarrow>
              (\<exists>i\<in>set (declared fw w a). \<exists>d\<in>set ds. same_polarity fw w i d)) \<and>
           (r \<noteq> None \<longrightarrow> r = Some MismatchedInterfacesError \<or> r = Some MismatchedPolarityError)"
    by blast+
qed

lemma Port_connect_result:
  "fst (Port_connect fw a ds name ident props w) = Inl e \<Longrightarrow>
   e = IncompatibleDataPortConnectionPropsError \<or> (\<exists>code. e = FailedToConnectError code \<and> code \<noteq> RTC_OK)"
  by (auto simp: Port_connect_def Let_def split: option.splits prod.splits if_splits
      dest: negotiation_check_err)

subsection \<open>Data ports\<close>

lemma class_name_inj [simp]: "class_name k = class_name k' \<longleftrightarrow> k = k'"
  by (cases k; cases k'; simp)

lemma ptypes_mem:
  "class_name k \<in> set (map (\<lambda>d. porttype (heap w d)) ds) \<longleftrightarrow> (\<exists>d\<in>set ds. p_class (heap w d) = k)"
  by (auto simp: porttype_def image_iff)

lemma ptypes_mem_in:
  "''DataInPort'' \<in> set (map (\<lambda>d. porttype (heap w d)) ds) \<longleftrightarrow> (\<exists>d\<in>set ds. p_class (heap w d) = DataInPort)"
  using ptypes_mem [of DataInPort w ds] by simp

lemma ptypes_mem_out:
  "''DataOutPort'' \<in> set (map (\<lambda>d. porttype (heap w d)) ds) \<longleftrightarrow> (\<exists>d\<in>set ds. p_class (heap w d) = DataOutPort)"
  using ptypes_mem [of DataOutPort w ds] by simp

lemma DataPort_connect_wrong_iff:
  assumes "p_class (heap w a) = DataInPort \<and> k = DataOutPort \<or> p_class (heap w a) = DataOutPort \<and> k = DataInPort"
  shows "fst (DataPort_connect fw a ds name ident props w) = Inl WrongPortTypeError
         \<longleftrightarrow> (\<forall>d\<in>set ds. p_class (heap w d) \<noteq> k)"
proof (cases "\<forall>d\<in>set ds. p_class (heap w d) \<noteq> k")
  case True
  then show ?thesis using assms
    by (auto simp: DataPort_connect_def Let_def ptypes_mem_in ptypes_mem_out simp del: set_map)
next
  case False
  have "fst (Port_connect fw a ds name ident q w) \<noteq> Inl WrongPortTypeError" for q
    using Port_connect_result [of fw a ds name ident q w] by auto
  then show ?thesis using assms False
    by (auto simp: DataPort_connect_def Let_def ptypes_mem_in ptypes_mem_out
        simp del: set_map split: option.splits)
qed

lemma DataPort_connect_wrong_world:
  assumes "p_class (heap w a) = DataInPort \<and> k = DataOutPort \<or> p_class (heap w a) = DataOutPort \<and> k = DataInPort"
    and "\<forall>d\<in>set ds. p_class (heap w d) \<noteq> k"
  shows "DataPort_connect fw a ds name ident props w = (Inl WrongPortTypeError, w)"
  using assms
  by (auto simp: DataPort_connect_def Let_def ptypes_mem_in ptypes_mem_out simp del: set_map)

subsection \<open>C3: data ports check the destinations' directions first\<close>

text \<open>
  Claim C3. \<^verbatim>\<open>connect\<close> of a data-in port raises WrongPortTypeError exactly when
  no destination is a data-out port, \<^verbatim>\<open>connect\<close> of a data-out port exactly when
  no destination is a data-in port; when it raises, the world is the one before the call, so
  the check comes before the base connect and no remote call was made. In particular a
  data-in port with a single data-in destination fails with WrongPortTypeError, the world
  unchanged.
\<close>

theorem data_port_direction_check:
  "(p_class (heap w a) = DataInPort \<longrightarrow>
      (fst (connect fw a ds name ident props w) = Inl WrongPortTypeError
         \<longleftrightarrow> (\<forall>d\<in>set ds. p_class (heap w d) \<noteq> DataOutPort))) \<and>
   (p_class (heap w a) = DataOutPort \<longrightarrow>
      (fst (connect fw a ds name ident props w) = Inl WrongPortTypeError
         \<longleftrightarrow> (\<forall>d\<in>set ds. p_class (heap w d) \<noteq> DataInPort))) \<and>
   ((p_class (heap w a) = DataInPort \<or> p_class (heap w a) = DataOutPort) \<and>
    fst (connect fw a ds name ident props w) = Inl WrongPortTypeError \<longrightarrow>
      snd (connect fw a ds name ident props w) = w) \<and>
   (p_class (heap w a) = DataInPort \<and> p_class (heap w d) = DataInPort \<longrightarrow>
      connect fw a [d] name ident props w = (Inl WrongPortTypeError, w))"
proof -
  have in_iff: "fst (connect fw a ds name ident props w) = Inl WrongPortTypeError
         \<longleftrightarrow> (\<forall>d\<in>set ds. p_class (heap w d) \<noteq> DataOutPort)"
    if "p_class (heap w a) = DataInPort"
    using that DataPort_connect_wrong_iff [of w a DataOutPort fw ds name ident props]
    by (simp add: connect_def)
  have out_iff: "fst (connect fw a ds name ident props w) = Inl WrongPortTypeError
         \<longleftrightarrow> (\<forall>d\<in>set ds. p_class (heap w d) \<noteq> DataInPort)"
    if "p_class (heap w a) = DataOutPort"
    using that DataPort_connect_wrong_iff [of w a DataInPort fw ds name ident props]
    by (simp add: connect_def)
  have unchanged: "snd (connect fw a ds name ident props w) = w"
    if "p_class (heap w a) = DataInPort \<or> p_class (heap w a) = DataOutPort"
      and "fst (connect fw a ds name ident props w) = Inl WrongPortTypeError"
  proof -
    from that(1) show ?thesis
    proof
      assume k: "p_class (heap w a) = DataInPort"
      with that(2) in_iff have "\<forall>d\<in>set ds. p_class (heap w d) \<noteq> DataOutPort" by simp
      then show ?thesis
        using k DataPort_connect_wrong_world [of w a DataOutPort ds fw name ident props]
        by (simp add: connect_def)
    next
      assume k: "p_class (heap w a) = DataOutPort"
      with that(2) out_iff have "\<forall>d\<in>set ds. p_class (heap w d) \<noteq> DataInPort" by simp
      then show ?thesis
        using k DataPort_connect_wrong_world [of w a DataInPort ds fw name ident props]
        by (simp add: connect_def)
    qed
  qed
  have single: "connect fw a [d] name ident props w = (Inl WrongPortTypeError, w)"
    if "p_class (heap w a) = DataInPort" "p_class (heap w d) = DataInPort"
    using that DataPort_connect_wrong_world [of w a DataOutPort "[d]" fw name ident props]
    by (simp add: connect_def)
  from in_iff out_iff unchanged single show ?thesis by blast
qed

theorem data_port_direction_check_witness:
  "fst (connect (example_fw RTC_OK (\<lambda>v r. example_profile [] [] []) (\<lambda>v r. []) []) 0 [1] None [] []
          (example_world [example_port DataInPort 10 ''in'' [], example_port DataInPort 11 ''in2'' []]))
     = Inl WrongPortTypeError \<and>
   snd (connect (example_fw RTC_OK (\<lambda>v r. example_profile [] [] []) (\<lambda>v r. []) []) 0 [1] None [] []
          (example_world [example_port DataInPort 10 ''in'' [], example_port DataInPort 11 ''in2'' []]))
     = example_world [example_port DataInPort 10 ''in'' [], example_port DataInPort 11 ''in2'' []] \<and>
   fst (connect (example_fw RTC_OK (\<lambda>v r. example_profile [] [] []) (\<lambda>v r. []) []) 0 [1] None [] []
          (example_world [example_port DataOutPort 10 ''out'' [], example_port CorbaPort 11 ''svc'' []]))
     = Inl WrongPortTypeError \<and>
   fst (connect (example_fw RTC_OK (\<lambda>v r. example_profile [] [] []) (\<lambda>v r. []) []) 0 [1] None [] []
          (example_world [example_port DataInPort 10 ''in'' [(''dataport.data_type'', ''TimedLong'')],
                          example_port DataOutPort 11 ''out'' []]))
     \<noteq> Inl WrongPortTypeError"
proof -
  let ?fw = "example_fw RTC_OK (\<lambda>v r. example_profile [] [] []) (\<lambda>v r. []) []"
  let ?w1 = "example_world [example_port DataInPort 10 ''in'' [], example_port DataInPort 11 ''in2'' []]"
  let ?w2 = "example_world [example_port DataOutPort 10 ''out'' [], example_port CorbaPort 11 ''svc'' []]"
  let ?w3 = "example_world [example_port DataInPort 10 ''in'' [(''dataport.data_type'', ''TimedLong'')],
                          example_port DataOutPort 11 ''out'' []]"
  have h1: "p_class (heap ?w1 0) = DataInPort" "\<forall>d\<in>set [1]. p_class (heap ?w1 d) \<noteq> DataOutPort"
    by (simp_all add: example_world_def example_port_def)
  have h2: "p_class (heap ?w2 0) = DataOutPort" "\<forall>d\<in>set [1]. p_class (heap ?w2 d) \<noteq> DataInPort"
    by (simp_all add: example_world_def example_port_def)
  have h3: "p_class (heap ?w3 0) = DataInPort" "\<not> (\<forall>d\<in>set [1]. p_class (heap ?w3 d) \<noteq> DataOutPort)"
    by (simp_all add: example_world_def example_port_def)
  note t1 = data_port_direction_check [of ?w1 0 ?fw "[1]" None "[]" "[]" 1]
  note t2 = data_port_direction_check [of ?w2 0 ?fw "[1]" None "[]" "[]" 1]
  note t3 = data_port_direction_check [of ?w3 0 ?fw "[1]" None "[]" "[]" 1]
  from t1 h1 have a: "fst (connect ?fw 0 [1] None [] [] ?w1) = Inl WrongPortTypeError" by blast
  from t1 h1 a have b: "snd (connect ?fw 0 [1] None [] [] ?w1) = ?w1" by blast
  from t2 h2 have c: "fst (connect ?fw 0 [1] None [] [] ?w2) = Inl WrongPortTypeError" by blast
  from t3 h3 have d: "fst (connect ?fw 0 [1] None [] [] ?w3) \<noteq> Inl WrongPortTypeError" by blast
  from a b c d show ?thesis by blast
qed

subsection \<open>The shape of every connect\<close>

lemma update_absent: "map_of d k = None \<Longrightarrow> AList.update k v d = d @ [(k, v)]"
  by (induction d) (auto split: if_splits)

lemma set_default_set: "set d \<subseteq> set (set_default k v d)"
  by (auto simp: set_default_def dict_has_def update_absent)

lemma set_default_has: "dict_has (set_default k v d) k' \<longleftrightarrow> dict_has d k' \<or> k' = k"
  by (auto simp: set_default_def dict_has_def update_conv')

lemma negotiation_check_None_class:
  "p_class s = Port \<or> p_class s = CorbaPort \<Longrightarrow> negotiation_check s ds props = None"
  by (auto simp: negotiation_check_def)


lemma corba_checks_shape:
  assumes "corba_checks fw a ds w = (r, w1)"
  shows "same_decl fw w w1"
    and "r = Some e \<Longrightarrow> e = WrongPortTypeError \<or> e = MismatchedInterfacesError \<or> e = MismatchedPolarityError"
proof -
  have "same_decl fw w w1 \<and> (r = Some e \<longrightarrow> e = WrongPortTypeError \<or> e = MismatchedInterfacesError \<or> e = MismatchedPolarityError)"
  proof (cases "\<forall>d\<in>set ds. p_class (heap w d) = CorbaPort")
    case False
    then show ?thesis using assms corba_checks_wrong [of ds w fw a] by auto
  next
    case True
    note s = corba_checks_spec [OF assms True]
    show ?thesis
    proof (cases "declared fw w a = []")
      case True
      with s(1) s(2) show ?thesis by auto
    next
      case False
      with s(1) s(3) show ?thesis by auto
    qed
  qed
  then show "same_decl fw w w1"
    and "r = Some e \<Longrightarrow> e = WrongPortTypeError \<or> e = MismatchedInterfacesError \<or> e = MismatchedPolarityError"
    by blast+
qed







subsection \<open>C1: a rejected connect raises and leaves the caches, an accepted one clears them\<close>


lemmas example_defs =
  example_fw_def example_world_def example_port_def example_profile_def
  plain_profiles_def no_connectors_def fw_accept_def fw_refuse_def
  old_connection_def data_world_def generic_world_def Connection_init_def

lemmas connect_defs =
  connect_def Port_connect_def DataPort_connect_def negotiation_check_def porttype_def
  connect_profile_def default_name_def set_default_def dict_has_def dict_to_nvlist_def
  prop_conflict_def value_rejected_def new_calls_def Let_def
  strip_def is_space_def lower_def lower_char_def is_upper_def




subsection \<open>C10: the default connection name\<close>





subsection \<open>C2: the negotiation check is made for data ports only\<close>

lemma check_props_conflict:
  assumes "(k, v) \<in> set q"
    and "prop_conflict (p_properties s) k v \<or> (\<exists>d\<in>set ds. prop_conflict (p_properties d) k v)"
  shows "check_props s ds q = Some IncompatibleDataPortConnectionPropsError"
proof -
  have "check_props s ds q \<noteq> None"
    unfolding check_props_iff using assms by force
  then show ?thesis using check_props_err by blast
qed

lemma DataPort_connect_reaches_base:
  assumes cls: "p_class (heap w a) = DataInPort \<or> p_class (heap w a) = DataOutPort"
    and dir_in: "p_class (heap w a) = DataInPort \<longrightarrow> (\<exists>d\<in>set ds. p_class (heap w d) = DataOutPort)"
    and dir_out: "p_class (heap w a) = DataOutPort \<longrightarrow> (\<exists>d\<in>set ds. p_class (heap w d) = DataInPort)"
    and dt: "dict_has props ''dataport.data_type'' \<or> dict_has (p_properties (heap w a)) ''dataport.data_type''"
  shows "\<exists>q. set props \<subseteq> set q \<and>
           DataPort_connect fw a ds name ident props w = Port_connect fw a ds name ident q w"
proof -
  define p3 where "p3 = set_default ''dataport.subscription_type'' ''new''
      (set_default ''dataport.interface_type'' ''corba_cdr''
        (set_default ''dataport.dataflow_type'' ''push'' props))"
  have sub3: "set props \<subseteq> set p3"
    unfolding p3_def using set_default_set by blast
  have has3: "dict_has p3 ''dataport.data_type'' = dict_has props ''dataport.data_type''"
    by (simp add: p3_def set_default_has)
  have c1: "(porttype (heap w a) = ''DataInPort'' \<and>
      ''DataOutPort'' \<notin> set (map (\<lambda>d. porttype (heap w d)) ds)) = False"
    using dir_in by (auto simp: ptypes_mem_out simp del: set_map)
  have c2: "(porttype (heap w a) = ''DataOutPort'' \<and>
      ''DataInPort'' \<notin> set (map (\<lambda>d. porttype (heap w d)) ds)) = False"
    using dir_out by (auto simp: ptypes_mem_in simp del: set_map)
  have step: "DataPort_connect fw a ds name ident props w =
      (if dict_has p3 ''dataport.data_type'' then Port_connect fw a ds name ident p3 w
       else (case map_of (p_properties (heap w a)) ''dataport.data_type'' of
               None \<Rightarrow> (Inl KeyError, w)
             | Some t \<Rightarrow> Port_connect fw a ds name ident
                           (AList.update ''dataport.data_type'' t p3) w))"
    unfolding DataPort_connect_def Let_def p3_def c1 c2 if_False ..
  show ?thesis
  proof (cases "dict_has props ''dataport.data_type''")
    case True
    then show ?thesis using step has3 sub3 by auto
  next
    case False
    with dt obtain t where t: "map_of (p_properties (heap w a)) ''dataport.data_type'' = Some t"
      by (auto simp: dict_has_def)
    have "map_of p3 ''dataport.data_type'' = None"
      using False has3 by (simp add: dict_has_def)
    then have "set props \<subseteq> set (AList.update ''dataport.data_type'' t p3)"
      using sub3 by (auto simp: update_absent)
    then show ?thesis using step has3 False t by auto
  qed
qed

lemma Port_connect_unchecked:
  "negotiation_check (heap w a) (map (heap w) ds) q = None \<Longrightarrow>
   fst (Port_connect fw a ds name ident q w) \<noteq> Inl IncompatibleDataPortConnectionPropsError"
  by (auto simp: Port_connect_def Let_def split: prod.splits if_splits)

lemma connect_unchecked:
  assumes "p_class (heap w a) = Port \<or> p_class (heap w a) = CorbaPort"
  shows "fst (connect fw a ds name ident props w) \<noteq> Inl IncompatibleDataPortConnectionPropsError"
  using assms
proof
  assume c: "p_class (heap w a) = Port"
  then have "negotiation_check (heap w a) (map (heap w) ds) props = None"
    by (simp add: negotiation_check_None_class)
  from Port_connect_unchecked [OF this] c show ?thesis by (simp add: connect_def)
next
  assume c: "p_class (heap w a) = CorbaPort"
  obtain r w1 where ck: "corba_checks fw a ds w = (r, w1)" by (cases "corba_checks fw a ds w")
  note s = corba_checks_shape [OF ck]
  have of1: "only_fetches w w1" using s(1) by (simp add: same_decl_def)
  show ?thesis
  proof (cases r)
    case (Some e)
    then have "fst (connect fw a ds name ident props w) = Inl e"
      using c ck by (simp add: connect_def CorbaPort_connect_def)
    with s(2) [OF Some] show ?thesis by auto
  next
    case None
    have "p_class (heap w1 a) = CorbaPort"
      using only_fetches_fields(1) [OF of1] c by simp
    then have "negotiation_check (heap w1 a) (map (heap w1) ds) q = None" for q
      by (simp add: negotiation_check_None_class)
    from Port_connect_unchecked [OF this] None c ck show ?thesis
      by (simp add: connect_def CorbaPort_connect_def)
  qed
qed

text \<open>
  Claim C2, amended. Strings are Python 3 strings of code points below 256. For every
  data-in or data-out port whose own checks pass (some destination has the opposite
  direction, and a data type is supplied by the caller or declared by the port): when the
  caller supplies a property \<open>k = v\<close> whose key exists in this port's or a destination's
  properties and whose value is rejected there (it is none of the comma-separated allowed
  values, each stripped of the white space around it, and the lower-cased allowed string does
  not contain \<open>any\<close>), \<^verbatim>\<open>connect\<close> raises IncompatibleDataPortConnectionPropsError
  and leaves the world as it was, so no remote call was made. For a generic port and for a
  service port \<^verbatim>\<open>connect\<close> never raises this error.
\<close>

theorem data_port_negotiation:
  "((p_class (heap w a) = DataInPort \<and> (\<exists>d\<in>set ds. p_class (heap w d) = DataOutPort) \<or>
     p_class (heap w a) = DataOutPort \<and> (\<exists>d\<in>set ds. p_class (heap w d) = DataInPort)) \<and>
    (dict_has props ''dataport.data_type'' \<or>
     dict_has (p_properties (heap w a)) ''dataport.data_type'') \<and>
    (k, v) \<in> set props \<and>
    (prop_conflict (p_properties (heap w a)) k v \<or>
     (\<exists>d\<in>set ds. prop_conflict (p_properties (heap w d)) k v)) \<longrightarrow>
      connect fw a ds name ident props w = (Inl IncompatibleDataPortConnectionPropsError, w)) \<and>
   (p_class (heap w a) = Port \<or> p_class (heap w a) = CorbaPort \<longrightarrow>
      fst (connect fw a ds name ident props w) \<noteq> Inl IncompatibleDataPortConnectionPropsError)"
proof (intro conjI impI)
  assume h: "(p_class (heap w a) = DataInPort \<and> (\<exists>d\<in>set ds. p_class (heap w d) = DataOutPort) \<or>
     p_class (heap w a) = DataOutPort \<and> (\<exists>d\<in>set ds. p_class (heap w d) = DataInPort)) \<and>
    (dict_has props ''dataport.data_type'' \<or>
     dict_has (p_properties (heap w a)) ''dataport.data_type'') \<and>
    (k, v) \<in> set props \<and>
    (prop_conflict (p_properties (heap w a)) k v \<or>
     (\<exists>d\<in>set ds. prop_conflict (p_properties (heap w d)) k v))"
  then have cls: "p_class (heap w a) = DataInPort \<or> p_class (heap w a) = DataOutPort"
    and dir_in: "p_class (heap w a) = DataInPort \<longrightarrow> (\<exists>d\<in>set ds. p_class (heap w d) = DataOutPort)"
    and dir_out: "p_class (heap w a) = DataOutPort \<longrightarrow> (\<exists>d\<in>set ds. p_class (heap w d) = DataInPort)"
    by auto
  from h have dt: "dict_has props ''dataport.data_type'' \<or>
      dict_has (p_properties (heap w a)) ''dataport.data_type''" by blast
  from DataPort_connect_reaches_base [OF cls dir_in dir_out dt]
  obtain q where q: "set props \<subseteq> set q"
    "DataPort_connect fw a ds name ident props w = Port_connect fw a ds name ident q w"
    by blast
  have kv: "(k, v) \<in> set q" using h q(1) by blast
  have conf: "prop_conflict (p_properties (heap w a)) k v \<or>
      (\<exists>d\<in>set (map (heap w) ds). prop_conflict (p_properties d) k v)"
    using h by auto
  have "negotiation_check (heap w a) (map (heap w) ds) q
      = Some IncompatibleDataPortConnectionPropsError"
    using cls check_props_conflict [OF kv conf] by (auto simp: negotiation_check_def)
  from Port_connect_rejected [OF this] q(2) cls
  show "connect fw a ds name ident props w = (Inl IncompatibleDataPortConnectionPropsError, w)"
    by (auto simp: connect_def)
next
  assume "p_class (heap w a) = Port \<or> p_class (heap w a) = CorbaPort"
  then show "fst (connect fw a ds name ident props w) \<noteq> Inl IncompatibleDataPortConnectionPropsError"
    by (rule connect_unchecked)
qed

text \<open>The white space stripped from an allowed value includes the separators 0x1C to
  0x1F: a value allowed behind one of them is not rejected.\<close>

lemma value_after_separator_allowed:
  "\<not> value_rejected ''pull'' (''push,'' @ [CHR 0x1F] @ ''pull'')"
  by (simp add: value_rejected_def strip_def is_space_def)

lemma data_world_conflict:
  "prop_conflict (p_properties (heap data_world 0)) ''dataport.dataflow_type'' ''shared''"
  by (simp add: example_defs connect_defs)

theorem data_port_negotiation_witness:
  "connect fw_accept 0 [1] None [] [(''dataport.dataflow_type'', ''shared'')] data_world
     = (Inl IncompatibleDataPortConnectionPropsError, data_world) \<and>
   fst (connect fw_accept 0 [1] None [] [(''dataport.dataflow_type'', ''shared'')] generic_world)
     \<noteq> Inl IncompatibleDataPortConnectionPropsError"
proof -
  have h: "(p_class (heap data_world 0) = DataInPort \<and> (\<exists>d\<in>set [1]. p_class (heap data_world d) = DataOutPort) \<or>
     p_class (heap data_world 0) = DataOutPort \<and> (\<exists>d\<in>set [1]. p_class (heap data_world d) = DataInPort)) \<and>
    (dict_has [(''dataport.dataflow_type'', ''shared'')] ''dataport.data_type'' \<or>
     dict_has (p_properties (heap data_world 0)) ''dataport.data_type'') \<and>
    (''dataport.dataflow_type'', ''shared'') \<in> set [(''dataport.dataflow_type'', ''shared'')] \<and>
    (prop_conflict (p_properties (heap data_world 0)) ''dataport.dataflow_type'' ''shared'' \<or>
     (\<exists>d\<in>set [1]. prop_conflict (p_properties (heap data_world d)) ''dataport.dataflow_type'' ''shared''))"
    using data_world_conflict by (simp add: example_defs dict_has_def)
  have g: "p_class (heap generic_world 0) = Port \<or> p_class (heap generic_world 0) = CorbaPort"
    by (simp add: example_defs)
  note t1 = data_port_negotiation [of data_world 0 "[1]" "[(''dataport.dataflow_type'', ''shared'')]"
      "''dataport.dataflow_type''" "''shared''" fw_accept None "[]"]
  note t2 = data_port_negotiation [of generic_world 0 "[1]" "[(''dataport.dataflow_type'', ''shared'')]"
      "''dataport.dataflow_type''" "''shared''" fw_accept None "[]"]
  from t1 h have a: "connect fw_accept 0 [1] None [] [(''dataport.dataflow_type'', ''shared'')] data_world
     = (Inl IncompatibleDataPortConnectionPropsError, data_world)" by blast
  from t2 g have b: "fst (connect fw_accept 0 [1] None [] [(''dataport.dataflow_type'', ''shared'')] generic_world)
     \<noteq> Inl IncompatibleDataPortConnectionPropsError" by blast
  from a b show ?thesis by blast
qed

text \<open>The claim as stated fails for a generic port: the value \<open>shared\<close> is not among the
  allowed \<open>push, pull\<close> of the port's own property, yet the connect is sent and succeeds.\<close>

theorem generic_port_negotiation_counterexample:
  "p_class (heap generic_world 0) = Port \<and>
   map_of (p_properties (heap generic_world 0)) ''dataport.dataflow_type'' = Some ''push, pull'' \<and>
   map (strip) (split (CHR '','') ''push, pull'') = [''push'', ''pull''] \<and>
   \<not> str_contains (lower ''push, pull'') ''any'' \<and>
   fst (connect fw_accept 0 [1] None [] [(''dataport.dataflow_type'', ''shared'')] generic_world)
     = Inr () \<and>
   new_calls generic_world
     (snd (connect fw_accept 0 [1] None [] [(''dataport.dataflow_type'', ''shared'')] generic_world))
     = [Call_connect 10 \<lparr> cp_name = ''outin'', cp_connector_id = [], cp_ports = [10, 11],
                          cp_properties = [(''dataport.dataflow_type'', ''shared'')] \<rparr> RTC_OK]"
  by (simp add: example_defs connect_defs fold_reparse_connections)

subsection \<open>C4: the checks of a service port's connect\<close>

lemma CorbaPort_connect_passed:
  assumes "corba_checks fw a ds w = (None, w1)" and "p_class (heap w a) = CorbaPort"
  shows "fst (CorbaPort_connect fw a ds name ident props w) = Inr () \<or>
         (\<exists>code. fst (CorbaPort_connect fw a ds name ident props w) = Inl (FailedToConnectError code))"
proof -
  let ?q = "set_default ''port.port_type'' ''CorbaPort'' props"
  have eq: "CorbaPort_connect fw a ds name ident props w = Port_connect fw a ds name ident ?q w1"
    using assms(1) by (simp add: CorbaPort_connect_def)
  have of1: "only_fetches w w1"
    using corba_checks_shape(1) [OF assms(1)] by (simp add: same_decl_def)
  have "p_class (heap w1 a) = CorbaPort"
    using only_fetches_fields(1) [OF of1] assms(2) by simp
  then have nc: "negotiation_check (heap w1 a) (map (heap w1) ds) ?q = None"
    by (simp add: negotiation_check_None_class)
  show ?thesis
  proof (cases "fst (Port_connect fw a ds name ident ?q w1)")
    case (Inl e)
    with Port_connect_result [OF Inl] Port_connect_unchecked [OF nc, of fw name ident]
    show ?thesis by (auto simp: eq)
  next
    case (Inr u)
    then show ?thesis by (simp add: eq)
  qed
qed

text \<open>
  Claim C4. For the connect of a service port, with \<open>declared\<close> the interfaces a port
  declares (what reading its \<^verbatim>\<open>interfaces\<close> gives) and \<open>matching\<close> the interface a
  destination has under the instance name of one of this port's:
  \<^item> a destination that is no service port makes it raise WrongPortTypeError, the world
    unchanged;
  \<^item> otherwise, if this port declares no interface and a destination declares some, it raises
    MismatchedInterfacesError;
  \<^item> otherwise, if this port declares interfaces, the checks pass exactly when for every
    declared interface every destination has a matching interface of the opposite polarity;
    when they fail the error is MismatchedInterfacesError or MismatchedPolarityError:
    the first if some pair has no matching interface and no pair matches with the same
    polarity, the second if every pair has a matching interface;
  \<^item> when the checks pass, the call returns normally or raises FailedToConnectError, as the
    remote framework decides.
\<close>

theorem corba_port_checks:
  "((\<exists>d\<in>set ds. p_class (heap w d) \<noteq> CorbaPort) \<longrightarrow>
      CorbaPort_connect fw a ds name ident props w = (Inl WrongPortTypeError, w)) \<and>
   ((\<forall>d\<in>set ds. p_class (heap w d) = CorbaPort) \<and> declared fw w a = [] \<and>
    (\<exists>d\<in>set ds. declared fw w d \<noteq> []) \<longrightarrow>
      fst (CorbaPort_connect fw a ds name ident props w) = Inl MismatchedInterfacesError) \<and>
   ((\<forall>d\<in>set ds. p_class (heap w d) = CorbaPort) \<and> declared fw w a \<noteq> [] \<longrightarrow>
      (fst (corba_checks fw a ds w) = None
         \<longleftrightarrow> (\<forall>i\<in>set (declared fw w a). \<forall>d\<in>set ds. pair_ok fw w i d)) \<and>
      (fst (corba_checks fw a ds w) \<noteq> None \<longrightarrow>
         fst (CorbaPort_connect fw a ds name ident props w) = Inl MismatchedInterfacesError \<or>
         fst (CorbaPort_connect fw a ds name ident props w) = Inl MismatchedPolarityError) \<and>
      ((\<exists>i\<in>set (declared fw w a). \<exists>d\<in>set ds. matching fw w i d = None) \<and>
       \<not> (\<exists>i\<in>set (declared fw w a). \<exists>d\<in>set ds. same_polarity fw w i d) \<longrightarrow>
         fst (CorbaPort_connect fw a ds name ident props w) = Inl MismatchedInterfacesError) \<and>
      ((\<exists>i\<in>set (declared fw w a). \<exists>d\<in>set ds. same_polarity fw w i d) \<and>
       \<not> (\<exists>i\<in>set (declared fw w a). \<exists>d\<in>set ds. matching fw w i d = None) \<longrightarrow>
         fst (CorbaPort_connect fw a ds name ident props w) = Inl MismatchedPolarityError)) \<and>
   (p_class (heap w a) = CorbaPort \<and> fst (corba_checks fw a ds w) = None \<longrightarrow>
      fst (CorbaPort_connect fw a ds name ident props w) = Inr () \<or>
      (\<exists>code. fst (CorbaPort_connect fw a ds name ident props w) = Inl (FailedToConnectError code)))"
proof -
  obtain r w1 where ck: "corba_checks fw a ds w = (r, w1)" by (cases "corba_checks fw a ds w")
  have err: "fst (CorbaPort_connect fw a ds name ident props w) = Inl e" if "r = Some e" for e
    using ck that by (simp add: CorbaPort_connect_def)
  have p1: "CorbaPort_connect fw a ds name ident props w = (Inl WrongPortTypeError, w)"
    if "\<exists>d\<in>set ds. p_class (heap w d) \<noteq> CorbaPort"
    using corba_checks_wrong [OF that, of fw a] by (simp add: CorbaPort_connect_def)
  have p2: "fst (CorbaPort_connect fw a ds name ident props w) = Inl MismatchedInterfacesError"
    if "\<forall>d\<in>set ds. p_class (heap w d) = CorbaPort" "declared fw w a = []"
      "\<exists>d\<in>set ds. declared fw w d \<noteq> []"
  proof -
    from corba_checks_spec(2) [OF ck that(1) that(2)] that(3)
    have "r = Some MismatchedInterfacesError" by auto
    then show ?thesis by (rule err)
  qed
  have p3: "(fst (corba_checks fw a ds w) = None
         \<longleftrightarrow> (\<forall>i\<in>set (declared fw w a). \<forall>d\<in>set ds. pair_ok fw w i d)) \<and>
      (fst (corba_checks fw a ds w) \<noteq> None \<longrightarrow>
         fst (CorbaPort_connect fw a ds name ident props w) = Inl MismatchedInterfacesError \<or>
         fst (CorbaPort_connect fw a ds name ident props w) = Inl MismatchedPolarityError) \<and>
      ((\<exists>i\<in>set (declared fw w a). \<exists>d\<in>set ds. matching fw w i d = None) \<and>
       \<not> (\<exists>i\<in>set (declared fw w a). \<exists>d\<in>set ds. same_polarity fw w i d) \<longrightarrow>
         fst (CorbaPort_connect fw a ds name ident props w) = Inl MismatchedInterfacesError) \<and>
      ((\<exists>i\<in>set (declared fw w a). \<exists>d\<in>set ds. same_polarity fw w i d) \<and>
       \<not> (\<exists>i\<in>set (declared fw w a). \<exists>d\<in>set ds. matching fw w i d = None) \<longrightarrow>
         fst (CorbaPort_connect fw a ds name ident props w) = Inl MismatchedPolarityError)"
    if h: "\<forall>d\<in>set ds. p_class (heap w d) = CorbaPort" "declared fw w a \<noteq> []"
  proof -
    note s = corba_checks_spec(3) [OF ck h]
    have iff: "r = None \<longleftrightarrow> (\<forall>i\<in>set (declared fw w a). \<forall>d\<in>set ds. pair_ok fw w i d)"
      using s by blast
    have kinds: "r \<noteq> None \<longrightarrow> r = Some MismatchedInterfacesError \<or> r = Some MismatchedPolarityError"
      using s by blast
    have mi: "r = Some MismatchedInterfacesError \<longrightarrow>
        (\<exists>i\<in>set (declared fw w a). \<exists>d\<in>set ds. matching fw w i d = None)"
      using s by blast
    have mp: "r = Some MismatchedPolarityError \<longrightarrow>
        (\<exists>i\<in>set (declared fw w a). \<exists>d\<in>set ds. same_polarity fw w i d)"
      using s by blast
    have a: "fst (corba_checks fw a ds w) = None
         \<longleftrightarrow> (\<forall>i\<in>set (declared fw w a). \<forall>d\<in>set ds. pair_ok fw w i d)"
      using iff by (simp add: ck)
    have b: "fst (corba_checks fw a ds w) \<noteq> None \<longrightarrow>
         fst (CorbaPort_connect fw a ds name ident props w) = Inl MismatchedInterfacesError \<or>
         fst (CorbaPort_connect fw a ds name ident props w) = Inl MismatchedPolarityError"
      using kinds err by (auto simp: ck)
    have nomatch_bad: "\<not> pair_ok fw w i d" if "matching fw w i d = None" for i d
      using that by (simp add: pair_ok_def)
    have same_bad: "\<not> pair_ok fw w i d" if "same_polarity fw w i d" for i d
      using that by (auto simp: pair_ok_def same_polarity_def split: option.splits)
    have c: "fst (CorbaPort_connect fw a ds name ident props w) = Inl MismatchedInterfacesError"
      if "\<exists>i\<in>set (declared fw w a). \<exists>d\<in>set ds. matching fw w i d = None"
        "\<not> (\<exists>i\<in>set (declared fw w a). \<exists>d\<in>set ds. same_polarity fw w i d)"
    proof -
      from that(1) nomatch_bad iff have "r \<noteq> None" by blast
      with kinds mp that(2) have "r = Some MismatchedInterfacesError" by blast
      then show ?thesis by (rule err)
    qed
    have d: "fst (CorbaPort_connect fw a ds name ident props w) = Inl MismatchedPolarityError"
      if "\<exists>i\<in>set (declared fw w a). \<exists>d\<in>set ds. same_polarity fw w i d"
        "\<not> (\<exists>i\<in>set (declared fw w a). \<exists>d\<in>set ds. matching fw w i d = None)"
    proof -
      from that(1) same_bad iff have "r \<noteq> None" by blast
      with kinds mi that(2) have "r = Some MismatchedPolarityError" by blast
      then show ?thesis by (rule err)
    qed
    from a b c d show ?thesis by blast
  qed
  have p4: "fst (CorbaPort_connect fw a ds name ident props w) = Inr () \<or>
      (\<exists>code. fst (CorbaPort_connect fw a ds name ident props w) = Inl (FailedToConnectError code))"
    if "p_class (heap w a) = CorbaPort" "fst (corba_checks fw a ds w) = None"
  proof -
    from that(2) ck have "corba_checks fw a ds w = (None, w1)" by simp
    from CorbaPort_connect_passed [OF this that(1)] show ?thesis .
  qed
  from p1 p2 p3 p4 show ?thesis by blast
qed


lemmas svc_defs =
  svc_profiles_def svc_fw_def svc_world_def declared_eq matching_def pair_ok_def
  same_polarity_def py_not_def cached_def SvcInterface_def PROVIDED_def REQUIRED_def

lemma svc_world_declared:
  "declared (svc_fw p q) svc_world 0 = [SvcInterface \<lparr> pip_instance_name = ''A'', pip_type_name = ''T'', pip_polarity = p \<rparr>]"
  "declared (svc_fw p q) svc_world 1 = [SvcInterface \<lparr> pip_instance_name = ''A'', pip_type_name = ''T'', pip_polarity = q \<rparr>]"
  by (simp_all add: example_defs svc_defs)

theorem corba_port_checks_witness:
  "(fst (CorbaPort_connect (svc_fw RTC_PROVIDED RTC_REQUIRED) 0 [1] None [] [] svc_world) = Inr () \<or>
    (\<exists>code. fst (CorbaPort_connect (svc_fw RTC_PROVIDED RTC_REQUIRED) 0 [1] None [] [] svc_world)
       = Inl (FailedToConnectError code))) \<and>
   fst (CorbaPort_connect (svc_fw RTC_PROVIDED RTC_PROVIDED) 0 [1] None [] [] svc_world)
     = Inl MismatchedPolarityError \<and>
   CorbaPort_connect (svc_fw RTC_PROVIDED RTC_REQUIRED) 0 [1] None [] [] data_world
     = (Inl WrongPortTypeError, data_world) \<and>
   fst (CorbaPort_connect (named_fw [] [''A'']) 0 [1] None [] [] svc_world)
     = Inl MismatchedInterfacesError \<and>
   fst (CorbaPort_connect (named_fw [''A''] [''B'']) 0 [1] None [] [] svc_world)
     = Inl MismatchedInterfacesError"
proof -
  let ?ok = "svc_fw RTC_PROVIDED RTC_REQUIRED"
  let ?same = "svc_fw RTC_PROVIDED RTC_PROVIDED"
  let ?none = "named_fw [] [''A'']"
  let ?other = "named_fw [''A''] [''B'']"
  note t1 = corba_port_checks [of "[1]" svc_world ?ok 0 None "[]" "[]"]
  note t2 = corba_port_checks [of "[1]" svc_world ?same 0 None "[]" "[]"]
  note t3 = corba_port_checks [of "[1]" data_world ?ok 0 None "[]" "[]"]
  note t4 = corba_port_checks [of "[1]" svc_world ?none 0 None "[]" "[]"]
  note t5 = corba_port_checks [of "[1]" svc_world ?other 0 None "[]" "[]"]
  note named_defs = named_fw_def named_profiles_def
  have corba: "\<forall>d\<in>set [1]. p_class (heap svc_world d) = CorbaPort"
    "p_class (heap svc_world 0) = CorbaPort"
    by (simp_all add: example_defs svc_defs)
  have d1: "declared ?ok svc_world 0 \<noteq> []" and d2: "declared ?same svc_world 0 \<noteq> []"
    by (simp_all add: svc_world_declared)
  have ok: "\<forall>i\<in>set (declared ?ok svc_world 0). \<forall>d\<in>set [1]. pair_ok ?ok svc_world i d"
    by (simp add: example_defs svc_defs)
  have same: "\<exists>i\<in>set (declared ?same svc_world 0). \<exists>d\<in>set [1]. same_polarity ?same svc_world i d"
    by (simp add: example_defs svc_defs)
  have found: "\<not> (\<exists>i\<in>set (declared ?same svc_world 0). \<exists>d\<in>set [1]. matching ?same svc_world i d = None)"
    by (simp add: example_defs svc_defs)
  have wrong: "\<exists>d\<in>set [1]. p_class (heap data_world d) \<noteq> CorbaPort"
    by (simp add: example_defs)
  have d4: "declared ?none svc_world 0 = []" "\<exists>d\<in>set [1]. declared ?none svc_world d \<noteq> []"
    by (simp_all add: example_defs svc_defs named_defs)
  have d5: "declared ?other svc_world 0 \<noteq> []"
    "\<exists>i\<in>set (declared ?other svc_world 0). \<exists>d\<in>set [1]. matching ?other svc_world i d = None"
    "\<not> (\<exists>i\<in>set (declared ?other svc_world 0). \<exists>d\<in>set [1]. same_polarity ?other svc_world i d)"
    by (simp_all add: example_defs svc_defs named_defs)
  from t1 corba d1 ok have pass: "fst (corba_checks ?ok 0 [1] svc_world) = None" by blast
  from t1 corba(2) pass
  have a: "fst (CorbaPort_connect ?ok 0 [1] None [] [] svc_world) = Inr () \<or>
    (\<exists>code. fst (CorbaPort_connect ?ok 0 [1] None [] [] svc_world) = Inl (FailedToConnectError code))"
    by blast
  from t2 corba(1) d2 same found
  have b: "fst (CorbaPort_connect ?same 0 [1] None [] [] svc_world) = Inl MismatchedPolarityError"
    by blast
  from t3 wrong
  have c: "CorbaPort_connect ?ok 0 [1] None [] [] data_world = (Inl WrongPortTypeError, data_world)"
    by blast
  from t4 corba(1) d4
  have d: "fst (CorbaPort_connect ?none 0 [1] None [] [] svc_world) = Inl MismatchedInterfacesError"
    by blast
  from t5 corba(1) d5
  have e: "fst (CorbaPort_connect ?other 0 [1] None [] [] svc_world) = Inl MismatchedInterfacesError"
    by blast
  from a b c d e show ?thesis by blast
qed

subsection \<open>C8: the port factory\<close>

lemma Port_init_fields:
  "Port_init fw k r owner w = (p, w') \<Longrightarrow>
   p_class p = k \<and> p_obj p = r \<and> p_owner p = owner \<and> p_connections p = None \<and>
   p_interfaces p = None \<and>
   p_name p = parsed_name owner (get_port_profile fw (remote w) r) \<and>
   p_properties p = nvlist_to_dict (pp_properties (get_port_profile fw (remote w) r)) \<and>
   calls w' = calls w @ [Call_get_port_profile r] \<and> remote w' = remote w \<and> heap w' = heap w"
  by (auto simp: Port_init_def Port_parse_def fetch_port_profile_def Let_def)

text \<open>
  Claim C8, amended. For every remote port reference whose profile declares a port-type
  property, the factory fetches the profile, reads the property and returns a port of the
  matching class: DataInPort for \<open>DataInPort\<close>, DataOutPort for \<open>DataOutPort\<close>,
  CorbaPort for \<open>CorbaPort\<close>, and the generic Port for every other declared value. The
  port wraps the reference with the given owner and empty caches; the profile was fetched
  once by the factory and once by the constructor.
\<close>

theorem parse_port_by_declared_type:
  "map_of (nvlist_to_dict (pp_properties (get_port_profile fw (remote w) r))) ''port.port_type''
     = Some t \<Longrightarrow>
   \<exists>p w'. parse_port fw r owner w = (Inr p, w') \<and>
     p_class p = (if t = ''DataInPort'' then DataInPort
                  else if t = ''DataOutPort'' then DataOutPort
                  else if t = ''CorbaPort'' then CorbaPort else Port) \<and>
     p_obj p = r \<and> p_owner p = owner \<and> p_connections p = None \<and> p_interfaces p = None \<and>
     calls w' = calls w @ [Call_get_port_profile r, Call_get_port_profile r]"
proof -
  assume t: "map_of (nvlist_to_dict (pp_properties (get_port_profile fw (remote w) r))) ''port.port_type''
     = Some t"
  define k where "k = (if t = ''DataInPort'' then DataInPort
                  else if t = ''DataOutPort'' then DataOutPort
                  else if t = ''CorbaPort'' then CorbaPort else Port)"
  let ?w1 = "log_call (Call_get_port_profile r) w"
  obtain p w' where init: "Port_init fw k r owner ?w1 = (p, w')"
    by (cases "Port_init fw k r owner ?w1")
  have sel: "(if t = ''DataInPort'' then Port_init fw DataInPort r owner ?w1
         else if t = ''DataOutPort'' then Port_init fw DataOutPort r owner ?w1
         else if t = ''CorbaPort'' then Port_init fw CorbaPort r owner ?w1
         else Port_init fw Port r owner ?w1) = Port_init fw k r owner ?w1"
    unfolding k_def by (simp only: if_distrib [of "\<lambda>c. Port_init fw c r owner ?w1"])
  have "parse_port fw r owner w =
      (let (p, w2) = Port_init fw k r owner ?w1 in (Inr p, w2))"
    unfolding parse_port_def fetch_port_profile_def Let_def prod.case t option.case sel ..
  then have run: "parse_port fw r owner w = (Inr p, w')"
    by (simp add: init)
  have "parse_port fw r owner w = (Inr p, w') \<and> p_class p = k \<and>
     p_obj p = r \<and> p_owner p = owner \<and> p_connections p = None \<and> p_interfaces p = None \<and>
     calls w' = calls w @ [Call_get_port_profile r, Call_get_port_profile r]"
    using Port_init_fields [OF init] run by simp
  then show ?thesis unfolding k_def by blast
qed

theorem parse_port_by_declared_type_witness:
  "\<exists>p w'. parse_port (svc_fw RTC_PROVIDED RTC_REQUIRED) 10 None svc_world = (Inr p, w') \<and>
     p_class p = CorbaPort \<and> p_obj p = 10 \<and>
     calls w' = [Call_get_port_profile 10, Call_get_port_profile 10]"
proof -
  have h: "map_of (nvlist_to_dict (pp_properties
      (get_port_profile (svc_fw RTC_PROVIDED RTC_REQUIRED) (remote svc_world) 10))) ''port.port_type''
      = Some ''CorbaPort''"
    by (simp add: example_defs svc_defs nvlist_to_dict_def)
  have c: "calls svc_world = []" by (simp add: example_defs svc_defs)
  from parse_port_by_declared_type [OF h, of None] c show ?thesis by auto
qed

text \<open>The claim as stated fails when the profile declares no port type: the lookup
  \<^verbatim>\<open>props['port.port_type']\<close> raises KeyError, and no port is returned.\<close>

theorem parse_port_missing_type_counterexample:
  "map_of (nvlist_to_dict (pp_properties (get_port_profile fw_bare (remote svc_world) 10)))
     ''port.port_type'' = None \<and>
   fst (parse_port fw_bare 10 None svc_world) = Inl KeyError"
  by (simp add: example_defs svc_defs bare_profiles_def fw_bare_def nvlist_to_dict_def
      parse_port_def fetch_port_profile_def)

subsection \<open>C6: the connection cache\<close>

text \<open>What does hold: after a read that returned a non-empty list, the next read returns
  the same list and makes no remote call.\<close>

lemma connections_fetch:
  "py_not (p_connections (heap w a)) \<Longrightarrow>
   new_calls w (snd (connections fw a w)) = [Call_get_connector_profiles (p_obj (heap w a))] \<and>
   p_connections (heap (snd (connections fw a w)) a) = Some (fst (connections fw a w))"
  by (simp add: connections_def fetch_connector_profiles_def Let_def)

lemma connections_hit:
  "\<not> py_not (p_connections (heap w a)) \<Longrightarrow>
   connections fw a w = (cached (p_connections (heap w a)), w)"
  by (simp add: connections_def)

lemma connections_second_read:
  assumes "connections fw a w = (cs, w1)" and "cs \<noteq> []"
  shows "connections fw a w1 = (cs, w1)"
proof (cases "py_not (p_connections (heap w a))")
  case True
  from connections_fetch [OF True, of fw] assms
  have "p_connections (heap w1 a) = Some cs" by simp
  with assms(2) show ?thesis by (simp add: connections_def py_not_def cached_def)
next
  case False
  from connections_hit [OF False, of fw] assms have "w1 = w" "cs = cached (p_connections (heap w a))"
    by simp_all
  with False show ?thesis by (simp add: connections_def)
qed

text \<open>
  Claim C6 fails on the code when the port has no connection: the property tests the cache
  with \<^verbatim>\<open>if not self._connections\<close>, which is also true of the stored empty list, so
  every read fetches again. Here two reads in a row, with no invalidation between them,
  make two \<^verbatim>\<open>get_connector_profiles\<close> calls, and the cache did hold the (empty) list
  after the first.
\<close>

theorem connections_empty_refetched:
  "p_connections (heap (snd (connections fw_accept 0 generic_world)) 0) = Some [] \<and>
   calls (snd (connections fw_accept 0 (snd (connections fw_accept 0 generic_world))))
     = [Call_get_connector_profiles 10, Call_get_connector_profiles 10]"
  by (simp add: example_defs connections_def fetch_connector_profiles_def py_not_def cached_def)

subsection \<open>C7: the interface cache\<close>

lemma reparse_fields:
  "p_interfaces (heap (reparse fw a w) x) = p_interfaces (heap w x)"
  "p_connections (heap (reparse fw a w) a) = None"
  "calls (reparse fw a w) = calls w @ [Call_get_port_profile (p_obj (heap w a))]"
  "p_obj (heap (reparse fw a w) x) = p_obj (heap w x)"
  "remote (reparse fw a w) = remote w"
  by (simp_all add: reparse_def Port_parse_def fetch_port_profile_def Let_def)

text \<open>What does hold of a read of \<^verbatim>\<open>interfaces\<close>: with nothing stored it fetches
  the profile once and stores the list; with a non-empty list stored it returns that list and
  makes no remote call.\<close>

lemma interfaces_first_read:
  "p_interfaces (heap w a) = None \<Longrightarrow>
   fst (interfaces fw a w)
     = map SvcInterface (pp_interfaces (get_port_profile fw (remote w) (p_obj (heap w a)))) \<and>
   new_calls w (snd (interfaces fw a w)) = [Call_get_port_profile (p_obj (heap w a))] \<and>
   p_interfaces (heap (snd (interfaces fw a w)) a) = Some (fst (interfaces fw a w))"
  by (simp add: interfaces_def fetch_port_profile_def Let_def py_not_def)

lemma interfaces_hit:
  "p_interfaces (heap w a) = Some ifs \<Longrightarrow> ifs \<noteq> [] \<Longrightarrow> interfaces fw a w = (ifs, w)"
  by (simp add: interfaces_def py_not_def cached_def)

lemma stale_world_cache:
  "p_interfaces (heap stale_world 0)
     = Some [SvcInterface \<lparr> pip_instance_name = ''A'', pip_type_name = ''T'',
                              pip_polarity = RTC_PROVIDED \<rparr>]"
  by (simp add: stale_world_def fw_versioned_def versioned_profiles_def example_defs
      interfaces_def fetch_port_profile_def py_not_def Let_def)

text \<open>
  Claim C7 fails on the code, in both halves. A service port read its interfaces when the
  remote profile declared the interface \<open>A\<close>; the profile now declares \<open>B\<close>. After
  \<^verbatim>\<open>reparse()\<close> the interface cache still holds \<open>A\<close>, and the next read of
  \<^verbatim>\<open>interfaces\<close> returns \<open>A\<close> without any remote call: nothing resets
  \<^verbatim>\<open>_interfaces\<close>, against the property's docstring (later reads return quickly
  "unless a delayed reparse has been triggered") and unlike the connection cache, which the
  same reparse clears. And for a service port whose profile declares no interface, two reads
  in a row fetch the profile twice: \<^verbatim>\<open>if not self._interfaces\<close> is true of the stored
  empty list too.
\<close>

theorem reparse_keeps_stale_interfaces:
  "map si_instance_name (cached (p_interfaces (heap stale_world 0))) = [''A''] \<and>
   map pip_instance_name (pp_interfaces (get_port_profile fw_versioned (remote stale_world) 10))
     = [''B''] \<and>
   map si_instance_name (cached (p_interfaces (heap (reparse fw_versioned 0 stale_world) 0)))
     = [''A''] \<and>
   p_connections (heap (reparse fw_versioned 0 stale_world) 0) = None \<and>
   map si_instance_name (fst (interfaces fw_versioned 0 (reparse fw_versioned 0 stale_world)))
     = [''A''] \<and>
   new_calls (reparse fw_versioned 0 stale_world)
     (snd (interfaces fw_versioned 0 (reparse fw_versioned 0 stale_world))) = [] \<and>
   p_interfaces (heap (snd (interfaces (named_fw [] []) 0 svc_world)) 0) = Some [] \<and>
   calls (snd (interfaces (named_fw [] []) 0 (snd (interfaces (named_fw [] []) 0 svc_world))))
     = [Call_get_port_profile 10, Call_get_port_profile 10]"
  by (simp add: stale_world_def fw_versioned_def versioned_profiles_def example_defs
      interfaces_def fetch_port_profile_def py_not_def cached_def reparse_def Port_parse_def
      reparse_connections_def upd_port_def log_call_def SvcInterface_def new_calls_def Let_def
      named_fw_def named_profiles_def svc_world_def)

subsection \<open>C5: disconnecting a connection\<close>

lemma Connection_ports_hit:
  "\<not> py_not (c_ports c) \<Longrightarrow> Connection_ports fw c w = (Inr (cached (c_ports c)), c, w)"
  by (simp add: Connection_ports_def)

lemma Connection_ports_id:
  "Connection_ports fw c w = (r, c1, w1) \<Longrightarrow> c_id c1 = c_id c \<and> c_obj c1 = c_obj c"
  by (auto simp: Connection_ports_def split: if_splits prod.splits option.splits)

text \<open>After a read that returned a non-empty list, every read returns it again and
  changes nothing.\<close>

lemma Connection_ports_again:
  assumes "Connection_ports fw c w = (Inr eps, c1, w1)" and "eps \<noteq> []"
  shows "Connection_ports fw c1 w1 = (Inr eps, c1, w1)"
proof (cases "py_not (c_ports c)")
  case True
  then have "c_ports c1 = Some eps"
    using assms(1) by (auto simp: Connection_ports_def split: prod.splits option.splits)
  with assms(2) show ?thesis by (simp add: Connection_ports_def py_not_def cached_def)
next
  case False
  then have "c1 = c" "w1 = w" "eps = cached (c_ports c)"
    using assms(1) by (auto simp: Connection_ports_def)
  with False show ?thesis by (simp add: Connection_ports_def)
qed

lemma scan_ports_Some: "scan_ports eps (Some p) ii = Some p"
  by simp

lemma scan_ports_None:
  "scan_ports eps None ii = first_resolved (drop ii eps)"
proof (induction "length eps - ii" arbitrary: ii)
  case 0
  then show ?case by (simp add: first_resolved_def)
next
  case (Suc n)
  then have lt: "ii < length eps" by simp
  then have dr: "drop ii eps = eps ! ii # drop (Suc ii) eps"
    by (simp add: Cons_nth_drop_Suc)
  show ?case
  proof (cases "snd (eps ! ii)")
    case None
    have "n = length eps - Suc ii" using Suc.hyps(2) by simp
    from Suc.hyps(1) [OF this] None lt dr show ?thesis
      by (simp add: first_resolved_def)
  next
    case (Some p)
    with lt dr show ?thesis by (simp add: first_resolved_def)
  qed
qed

lemma scan_ports_first:
  "scan_ports (ep0 # rest) (snd ep0) 1 = first_resolved (ep0 # rest)"
proof (cases "snd ep0")
  case None
  then show ?thesis using scan_ports_None [of "ep0 # rest" 1]
    by (simp add: first_resolved_def del: scan_ports.simps)
next
  case (Some p)
  then show ?thesis by (simp add: first_resolved_def scan_ports_Some del: scan_ports.simps)
qed

lemma first_resolved_none: "\<forall>ep\<in>set eps. snd ep = None \<Longrightarrow> first_resolved eps = None"
  by (induction eps) (auto simp: first_resolved_def)

lemma first_resolved_at:
  "\<forall>ep\<in>set pre. snd ep = None \<Longrightarrow> first_resolved (pre @ (n, Some p) # post) = Some p"
  by (induction pre) (auto simp: first_resolved_def)

lemma disconnect_eq:
  assumes "Connection_ports fw c w = (Inr eps, c1, w1)"
  shows "disconnect fw c w =
     (if eps = [] then (Inl NotConnectedError, c1, w1)
      else case first_resolved eps of
             None \<Rightarrow> (Inl UnknownConnectionOwnerError, c1, w1)
           | Some p \<Rightarrow>
               (Inr (), c1,
                log_call (Call_disconnect (p_obj p) (c_id c))
                  (w1\<lparr> remote := snd (remote_disconnect fw (remote w1) (p_obj p) (c_id c)) \<rparr>)))"
proof (cases eps)
  case Nil
  then show ?thesis using assms by (simp add: disconnect_def)
next
  case (Cons ep0 rest)
  have id: "c_id c1 = c_id c" using Connection_ports_id [OF assms] by simp
  show ?thesis
    using assms Cons scan_ports_first [of ep0 rest]
    by (simp add: disconnect_def id split: option.splits prod.splits del: scan_ports.simps)
qed

text \<open>
  Claim C5, amended. For every connection whose endpoints can be read, that is, reading
  \<^verbatim>\<open>self.ports\<close> raises nothing and gives the endpoint list \<open>eps\<close>:
  \<^verbatim>\<open>disconnect\<close> raises NotConnectedError when \<open>eps\<close> is empty; it raises
  UnknownConnectionOwnerError when \<open>eps\<close> is not empty and no endpoint has a resolved
  port; and when the endpoint \<open>(n, Some p)\<close> is the first one resolved (all before it are
  unresolved), the call returns normally, having made one remote call: the framework's
  disconnect of this connection's id through the reference of \<open>p\<close>, whose new state the
  world holds. The two errors are raised without any disconnect call: the world is the one
  the read of the endpoints left.
\<close>

theorem disconnect_first_resolved:
  "Connection_ports fw c w = (Inr eps, c1, w1) \<Longrightarrow>
   (eps = [] \<longrightarrow> disconnect fw c w = (Inl NotConnectedError, c1, w1)) \<and>
   (eps \<noteq> [] \<and> (\<forall>ep\<in>set eps. snd ep = None) \<longrightarrow>
      disconnect fw c w = (Inl UnknownConnectionOwnerError, c1, w1)) \<and>
   (\<forall>pre n p post. eps = pre @ (n, Some p) # post \<and> (\<forall>ep\<in>set pre. snd ep = None) \<longrightarrow>
      fst (disconnect fw c w) = Inr () \<and>
      calls (snd (snd (disconnect fw c w))) = calls w1 @ [Call_disconnect (p_obj p) (c_id c)] \<and>
      heap (snd (snd (disconnect fw c w))) = heap w1 \<and>
      remote (snd (snd (disconnect fw c w)))
        = snd (remote_disconnect fw (remote w1) (p_obj p) (c_id c)) \<and>
      fst (snd (disconnect fw c w)) = c1)"
proof -
  assume run: "Connection_ports fw c w = (Inr eps, c1, w1)"
  note eq = disconnect_eq [OF run]
  have a: "eps = [] \<longrightarrow> disconnect fw c w = (Inl NotConnectedError, c1, w1)"
    using eq by simp
  have b: "eps \<noteq> [] \<and> (\<forall>ep\<in>set eps. snd ep = None) \<longrightarrow>
      disconnect fw c w = (Inl UnknownConnectionOwnerError, c1, w1)"
    using eq first_resolved_none [of eps] by simp
  have c: "fst (disconnect fw c w) = Inr () \<and>
      calls (snd (snd (disconnect fw c w))) = calls w1 @ [Call_disconnect (p_obj p) (c_id c)] \<and>
      heap (snd (snd (disconnect fw c w))) = heap w1 \<and>
      remote (snd (snd (disconnect fw c w)))
        = snd (remote_disconnect fw (remote w1) (p_obj p) (c_id c)) \<and>
      fst (snd (disconnect fw c w)) = c1"
    if "eps = pre @ (n, Some p) # post" "\<forall>ep\<in>set pre. snd ep = None" for pre n p post
  proof -
    have "first_resolved eps = Some p" using that first_resolved_at by simp
    moreover have "eps \<noteq> []" using that(1) by simp
    ultimately show ?thesis using eq by simp
  qed
  from a b c show ?thesis by blast
qed

lemma tree_connection_unknown:
  "Connection_ports fw_tree (tree_connection [10]) generic_world
     = (Inr [(''Unknown'', None)], set_ports (Some [(''Unknown'', None)]) (tree_connection [10]),
        generic_world)"
  by (simp add: Connection_ports_def tree_connection_def Connection_init_def py_not_def
      resolve_endpoint_def fw_tree_def example_fw_def exposes_11_def tree_node_def
      List.map_filter_def)

lemma tree_connection_empty:
  "Connection_ports fw_tree (tree_connection []) generic_world
     = (Inr [], set_ports (Some []) (tree_connection []), generic_world)"
  by (simp add: Connection_ports_def tree_connection_def Connection_init_def py_not_def)

lemma tree_connection_mixed:
  "fst (Connection_ports fw_tree (tree_connection [10, 11]) generic_world)
     = Inr [(''Unknown'', None),
            (''/host/Comp0.rtc:p'', Some (PortObj Port 11 None (Some tree_node) ''p''
                                         [(''port.port_type'', ''Port'')] None))]"
  by (simp add: Connection_ports_def tree_connection_def Connection_init_def py_not_def
      resolve_endpoint_def fw_tree_def example_fw_def exposes_11_def tree_node_def
      List.map_filter_def fetch_port_profile_def parse_port_def Port_init_def Port_parse_def
      parsed_name_def plain_profiles_def example_profile_def nvlist_to_dict_def Let_def)

lemma tree_connection_remote:
  "remote (snd (snd (Connection_ports fw_tree (tree_connection [10, 11]) generic_world))) = 0"
  by (simp add: Connection_ports_def tree_connection_def Connection_init_def py_not_def
      resolve_endpoint_def fw_tree_def example_fw_def exposes_11_def tree_node_def
      List.map_filter_def fetch_port_profile_def parse_port_def Port_init_def Port_parse_def
      parsed_name_def plain_profiles_def example_profile_def nvlist_to_dict_def Let_def
      generic_world_def example_world_def)

theorem disconnect_first_resolved_witness:
  "fst (disconnect fw_tree (tree_connection []) generic_world) = Inl NotConnectedError \<and>
   fst (disconnect fw_tree (tree_connection [10]) generic_world) = Inl UnknownConnectionOwnerError \<and>
   fst (disconnect fw_tree (tree_connection [10, 11]) generic_world) = Inr () \<and>
   new_calls (snd (snd (Connection_ports fw_tree (tree_connection [10, 11]) generic_world)))
     (snd (snd (disconnect fw_tree (tree_connection [10, 11]) generic_world)))
     = [Call_disconnect 11 ''id0''] \<and>
   remote (snd (snd (disconnect fw_tree (tree_connection [10, 11]) generic_world))) = 1"
proof -
  let ?c2 = "tree_connection [10, 11]"
  let ?r2 = "Connection_ports fw_tree ?c2 generic_world"
  let ?p = "PortObj Port 11 None (Some tree_node) ''p'' [(''port.port_type'', ''Port'')] None"
  let ?eps = "[(''Unknown'', None), (''/host/Comp0.rtc:p'', Some ?p)]"
  have run2: "?r2 = (Inr ?eps, fst (snd ?r2), snd (snd ?r2))"
    using tree_connection_mixed by (metis prod.collapse)
  note t0 = disconnect_first_resolved [OF tree_connection_empty]
  note t1 = disconnect_first_resolved [OF tree_connection_unknown]
  note t2 = disconnect_first_resolved [OF run2]
  from t0 have a: "fst (disconnect fw_tree (tree_connection []) generic_world) = Inl NotConnectedError"
    by simp
  from t1 have b: "fst (disconnect fw_tree (tree_connection [10]) generic_world)
      = Inl UnknownConnectionOwnerError" by simp
  have split: "?eps = [(''Unknown'', None)] @ (''/host/Comp0.rtc:p'', Some ?p) # [] \<and>
      (\<forall>ep\<in>set [(''Unknown'', None :: port option)]. snd ep = None)" by simp
  from t2 split
  have c: "fst (disconnect fw_tree ?c2 generic_world) = Inr () \<and>
      calls (snd (snd (disconnect fw_tree ?c2 generic_world)))
        = calls (snd (snd ?r2)) @ [Call_disconnect (p_obj ?p) (c_id ?c2)] \<and>
      remote (snd (snd (disconnect fw_tree ?c2 generic_world)))
        = snd (remote_disconnect fw_tree (remote (snd (snd ?r2))) (p_obj ?p) (c_id ?c2))"
    by blast
  have id: "p_obj ?p = 11" "c_id ?c2 = ''id0''"
    by (simp_all add: tree_connection_def Connection_init_def)
  have rem: "remote (snd (snd ?r2)) = 0"
    by (simp add: tree_connection_remote)
  have step: "snd (remote_disconnect fw_tree 0 11 ''id0'') = 1"
    by (simp add: fw_tree_def example_fw_def counting_disconnect_def)
  from a b c id rem step show ?thesis by simp
qed

text \<open>The claim as stated, for every connection, fails where an endpoint cannot be read:
  the first endpoint resolves to the port of reference 10, the profile of the second declares
  no port type, so building its port raises KeyError inside the read of \<^verbatim>\<open>self.ports\<close>;
  \<^verbatim>\<open>disconnect\<close> ends with that KeyError and makes no disconnect call, although an
  endpoint is resolved.\<close>

theorem disconnect_unreadable_endpoint_counterexample:
  "fst (disconnect fw_half ownerless_connection generic_world) = Inl KeyError \<and>
   c_ports (fst (snd (disconnect fw_half ownerless_connection generic_world)))
     = Some [(''p'', Some (PortObj Port 10 None None ''p'' [(''port.port_type'', ''Port'')] None))] \<and>
   calls (snd (snd (disconnect fw_half ownerless_connection generic_world)))
     = [Call_get_port_profile 10, Call_get_port_profile 10, Call_get_port_profile 10,
        Call_get_port_profile 11, Call_get_port_profile 11]"
  by (simp add: disconnect_def Connection_ports_def ownerless_connection_def Connection_init_def
      py_not_def resolve_endpoint_def fw_half_def half_profiles_def bare_profiles_def
      example_fw_def example_profile_def fetch_port_profile_def parse_port_def Port_init_def
      Port_parse_def parsed_name_def nvlist_to_dict_def generic_world_def example_world_def
      Let_def)

subsection \<open>C9: the search for the connections with several destinations\<close>

lemmas search_defs =
  linked_connectors_def fw_linked_def linked_world_def example_fw_def example_world_def
  example_port_def example_profile_def plain_profiles_def
  get_connections_by_dests_def get_connections_by_dest_def connections_def
  fetch_connector_profiles_def fetch_port_profile_def Connection_init_def
  has_port_def Connection_ports_def resolve_endpoint_def parse_port_def Port_init_def
  Port_parse_def parsed_name_def nvlist_to_dict_def endpoint_is_def py_not_def cached_def
  Let_def

text \<open>
  Claim C9 fails on the code. The port of reference 10 has one connection, whose endpoints
  are the ports of references 10 and 11. Asked for the connections that involve this port
  and the port of reference 12, \<^verbatim>\<open>get_connections_by_dests\<close> returns that connection,
  which does not involve the port of reference 12; the search for one destination,
  \<^verbatim>\<open>get_connections_by_dest\<close>, returns none.
\<close>

theorem get_connections_by_dests_ignores_dests:
  "fst (get_connections_by_dests fw_linked 0 [2] linked_world) = Inr [linked_connection] \<and>
   p_obj (heap linked_world 2) = 12 \<and>
   fst (has_port fw_linked linked_connection (heap linked_world 0) linked_world) = Inr True \<and>
   fst (has_port fw_linked linked_connection (heap linked_world 2) linked_world) = Inr False \<and>
   fst (get_connections_by_dest fw_linked 0 2 linked_world) = Inr []"
  by (simp add: search_defs linked_connection_def)

end
